theory Spec2Isabelle
  imports Main "HOL-Library.Word"
begin

unbundle bit_operations_syntax

section \<open>Errors\<close>

text \<open>
  The error values of packages \<open>wifi\<close> and \<open>ntp\<close>. An error produced by a driver
  (resolver, socket) is \<open>ErrExternal\<close> with its message; a run-time panic of the Go
  program (index out of range, division by zero) is \<open>Panic\<close>.
\<close>

datatype error =
    ErrConnectToAP
  | ErrNoIPAddress
  | ErrNotConnected
  | ErrReadDatagramSize
  | ErrReadNoResponse
  | ErrExternal string
  | Panic string

fun Error :: "error \<Rightarrow> string" where
  "Error ErrConnectToAP = ''failed to connect to access point''"
| "Error ErrNoIPAddress = ''could not obtain IP address from access point''"
| "Error ErrNotConnected = ''not connected to access point''"
| "Error ErrReadDatagramSize = ''received unexpected NTP datagram size''"
| "Error ErrReadNoResponse = ''timeout waiting for NTP datagram reply''"
| "Error (ErrExternal msg) = msg"
| "Error (Panic msg) = msg"

section \<open>Time\<close>

text \<open>
  \<open>time.Duration\<close> is a signed 64-bit count of nanoseconds. A \<open>time.Time\<close> is an
  instant, kept as the number of nanoseconds since the zero time (January 1, year 1, UTC),
  together with the offset of its location in seconds. The functions below are the ones
  of Go's package \<open>time\<close> that the program calls, with the behaviour that package
  documents: \<open>Sub\<close> saturates at the largest and smallest duration, \<open>IsZero\<close> tests for
  the zero instant, \<open>In\<close> changes the location only. Monotonic clock readings are not
  modelled.
\<close>

type_synonym Duration = "64 word"

record Time =
  t_ns :: int
  t_zone :: int

definition Millisecond :: Duration where
  "Millisecond = 1000000"

definition Second :: Duration where
  "Second = 1000000000"

definition Hour :: Duration where
  "Hour = 3600000000000"

definition maxDuration :: Duration where
  "maxDuration = 0x7FFFFFFFFFFFFFFF"

definition minDuration :: Duration where
  "minDuration = 0x8000000000000000"

definition zeroTime :: Time where
  "zeroTime = \<lparr>t_ns = 0, t_zone = 0\<rparr>"

definition time_IsZero :: "Time \<Rightarrow> bool" where
  "time_IsZero t = (t_ns t = 0)"

definition time_Sub :: "Time \<Rightarrow> Time \<Rightarrow> Duration" where
  "time_Sub t u =
     (let d = t_ns t - t_ns u
      in if sint maxDuration < d then maxDuration
         else if d < sint minDuration then minDuration
         else word_of_int d)"

definition time_Add :: "Time \<Rightarrow> Duration \<Rightarrow> Time" where
  "time_Add t d = t\<lparr>t_ns := t_ns t + sint d\<rparr>"

definition unixToInternal :: int where
  "unixToInternal = 62135596800"

definition time_Unix :: "int \<Rightarrow> int \<Rightarrow> Time" where
  "time_Unix sec nsec = \<lparr>t_ns = (sec + unixToInternal) * 1000000000 + nsec, t_zone = 0\<rparr>"

definition time_In :: "Time \<Rightarrow> int \<Rightarrow> Time" where
  "time_In t z = t\<lparr>t_zone := z\<rparr>"

section \<open>Package model: the shared state\<close>

datatype Status =
    StatusIdle
  | StatusDisconnected
  | StatusConnecting
  | StatusUnsynchronized
  | StatusSynchronized

record AP =
  SSID :: string
  Pass :: string

type_synonym IPAddress = string

text \<open>\<open>Retry\<close> is a Go \<open>uint\<close>, 32 bits wide on the microcontrollers the program targets.\<close>

record Model =
  m_AP :: AP
  m_IP :: IPAddress
  m_Time :: Time
  m_Retry :: "32 word"
  m_Status :: Status

text \<open>
  The package variable \<open>state\<close>. Its mutex is not modelled: the program has one thread
  of control, and each of the three functions holds the lock from its first to its last
  statement.
\<close>

record state =
  s_data :: Model
  s_changed :: bool

definition model_Get :: "state \<Rightarrow> (bool \<times> Model) \<times> state" where
  "model_Get s = ((s_changed s, s_data s), s\<lparr>s_changed := False\<rparr>)"

definition model_Set :: "(Model \<Rightarrow> Model) \<Rightarrow> state \<Rightarrow> state" where
  "model_Set f s = (s\<lparr>s_data := f (s_data s)\<rparr>)\<lparr>s_changed := True\<rparr>"

definition model_Mod :: "(Model \<Rightarrow> Model) \<Rightarrow> state \<Rightarrow> state" where
  "model_Mod f s = s\<lparr>s_data := f (s_data s)\<rparr>"

text \<open>A caller that changes the state: by \<open>Set\<close> or by \<open>Mod\<close>, with some closure.\<close>

datatype mutation = DoSet "Model \<Rightarrow> Model" | DoMod "Model \<Rightarrow> Model"

fun mutate :: "mutation \<Rightarrow> state \<Rightarrow> state" where
  "mutate (DoSet f) s = model_Set f s"
| "mutate (DoMod f) s = model_Mod f s"

section \<open>Package ntp: configuration, datagram and expiration\<close>

record Config =
  Server :: "string list"
  RemotePort :: int
  LocalPort :: int
  TZOffset :: int
  Interval :: Duration
  Precision :: Duration
  LeapSmear :: bool

type_synonym datagram = "8 word list"

record NTP =
  n_config :: Config
  n_locale :: int
  n_lastSync :: Time
  n_lastPost :: Time
  n_datagram :: datagram

definition DefaultServer :: "string list" where
  "DefaultServer = [''us.pool.ntp.org'', ''time.google.com'']"

definition DefaultRemotePort :: int where
  "DefaultRemotePort = 123"

definition DefaultLocalPort :: int where
  "DefaultLocalPort = 2390"

definition DefaultTZOffset :: int where
  "DefaultTZOffset = - 6 * 60 * 60"

definition DefaultInterval :: Duration where
  "DefaultInterval = 6 * Hour"

definition DefaultPrecision :: Duration where
  "DefaultPrecision = Second"

definition DefaultLeapSmear :: bool where
  "DefaultLeapSmear = False"

definition datagramSize :: nat where
  "datagramSize = 48"

definition NTP_New :: "Config \<Rightarrow> NTP" where
  "NTP_New config =
     (let c1 = (if Server config = []
                then config\<lparr>Server := DefaultServer, LeapSmear := DefaultLeapSmear\<rparr>
                else config);
          c2 = (if RemotePort c1 = 0 then c1\<lparr>RemotePort := DefaultRemotePort\<rparr> else c1);
          c3 = (if LocalPort c2 = 0 then c2\<lparr>LocalPort := DefaultLocalPort\<rparr> else c2);
          c4 = (if TZOffset c3 = 0 then c3\<lparr>TZOffset := DefaultTZOffset\<rparr> else c3);
          c5 = (if Interval c4 = 0 then c4\<lparr>Interval := DefaultInterval\<rparr> else c4);
          c6 = (if Precision c5 = 0 then c5\<lparr>Precision := DefaultPrecision\<rparr> else c5)
      in \<lparr>n_config = c6, n_locale = TZOffset c6, n_lastSync = zeroTime,
          n_lastPost = zeroTime, n_datagram = replicate datagramSize 0\<rparr>)"

text \<open>\<open>isExpired\<close>: the comparison \<open>>=\<close> of two durations is signed.\<close>

definition isExpired :: "Time \<Rightarrow> Time \<Rightarrow> Duration \<Rightarrow> bool" where
  "isExpired at since span = (time_IsZero at \<or> sint span \<le> sint (time_Sub at since))"

definition NTP_isExpired :: "NTP \<Rightarrow> Time \<Rightarrow> bool \<times> bool" where
  "NTP_isExpired n at =
     (isExpired at (n_lastSync n) (Interval (n_config n)),
      isExpired at (n_lastPost n) (Precision (n_config n)))"

definition datagram_reset :: "datagram \<Rightarrow> datagram" where
  "datagram_reset d = map (\<lambda>_. 0) d"

text \<open>
  The buffer that \<open>write\<close> sends: the statements of \<open>write\<close> before the socket call,
  in their order. An index beyond the buffer panics in Go; the largest index written is 15.
\<close>

definition NTP_write_datagram :: "Config \<Rightarrow> datagram \<Rightarrow> error + datagram" where
  "NTP_write_datagram c d0 =
     (let d = datagram_reset d0
      in if length d < 16 then Inl (Panic ''index out of range'')
         else
           let d1 = d[0 := 0b11100011];
               d2 = (if \<not> LeapSmear c then d1[0 := (d1 ! 0) OR 0b00000011] else d1);
               d3 = d2[1 := 0];
               d4 = d3[2 := 6];
               d5 = d4[3 := 0xEC];
               d6 = d5[12 := 49];
               d7 = d6[13 := 0x4E];
               d8 = d7[14 := 49];
               d9 = d8[15 := 52]
           in Inr d9)"

text \<open>
  \<open>parse\<close>: the four bytes are widened to \<open>uint32\<close>, shifted and OR-ed; the
  subtraction of \<open>seventyYears\<close> is a \<open>uint32\<close> subtraction, and the conversion to
  \<open>int64\<close> extends with zeros. The largest index read is 43.
\<close>

definition seventyYears :: "32 word" where
  "seventyYears = 2208988800"

definition datagram_seconds :: "datagram \<Rightarrow> 32 word" where
  "datagram_seconds d =
     push_bit 24 (ucast (d ! 40)) OR push_bit 16 (ucast (d ! 41)) OR
     push_bit 8 (ucast (d ! 42)) OR ucast (d ! 43)"

definition datagram_parse :: "datagram \<Rightarrow> error + Time" where
  "datagram_parse d =
     (if length d < 44 then Inl (Panic ''index out of range'')
      else Inr (time_Unix (uint (datagram_seconds d - seventyYears)) 0))"

section \<open>The environment and the world\<close>

text \<open>
  The program talks to the WiFi coprocessor, the resolver, a UDP socket, the display and
  the clock. What they answer is not decided by the program, so it is a parameter: the
  record \<open>env\<close> gives the answer to the k-th call of each kind. What the program does to
  them, and the program's own variables, is the record \<open>world\<close>, which every function
  takes and returns.
\<close>

record poll =
  p_count :: nat
  p_bytes :: datagram
  p_err :: "string option"
  p_time :: nat

record env =
  e_lag :: "nat \<Rightarrow> nat"
  e_status :: "nat \<Rightarrow> bool"
  e_getip :: "nat \<Rightarrow> IPAddress \<times> bool"
  e_resolve :: "nat \<Rightarrow> string \<Rightarrow> string + IPAddress"
  e_dial :: "nat \<Rightarrow> string option"
  e_write :: "nat \<Rightarrow> string option"
  e_read :: "nat \<Rightarrow> poll"

record world =
  w_shared :: state
  w_ip :: IPAddress
  w_clock :: int
  w_slept :: "Duration list"
  w_status_calls :: nat
  w_ip_calls :: nat
  w_passphrases :: "AP list"
  w_resolves :: nat
  w_dials :: nat
  w_sent :: "datagram list"
  w_reads :: nat
  w_closed :: nat
  w_displayed :: "Model list"
  w_printed :: "string list"

definition time_Now :: "world \<Rightarrow> Time" where
  "time_Now w = \<lparr>t_ns = w_clock w, t_zone = 0\<rparr>"

definition time_Since :: "world \<Rightarrow> Time \<Rightarrow> Duration" where
  "time_Since w t = time_Sub (time_Now w) t"

text \<open>
  \<open>time.Sleep d\<close> returns after at least \<open>d\<close>; a negative or zero \<open>d\<close> returns at once.
  The k-th sleep overshoots by \<open>e_lag e k\<close> nanoseconds.
\<close>

definition time_Sleep :: "env \<Rightarrow> Duration \<Rightarrow> world \<Rightarrow> world" where
  "time_Sleep e d w =
     w\<lparr>w_clock := w_clock w + max 0 (sint d) + int (e_lag e (length (w_slept w))),
       w_slept := w_slept w @ [d]\<rparr>"

definition runtime_AdjustTimeOffset :: "64 word \<Rightarrow> world \<Rightarrow> world" where
  "runtime_AdjustTimeOffset off w = w\<lparr>w_clock := w_clock w + sint off\<rparr>"

definition println :: "string \<Rightarrow> world \<Rightarrow> world" where
  "println msg w = w\<lparr>w_printed := w_printed w @ [msg]\<rparr>"

definition display_Update :: "Model \<Rightarrow> world \<Rightarrow> world" where
  "display_Update m w = w\<lparr>w_displayed := w_displayed w @ [m]\<rparr>"

section \<open>Package wifi\<close>

definition nina_SetPassphrase :: "AP \<Rightarrow> world \<Rightarrow> world" where
  "nina_SetPassphrase ap w = w\<lparr>w_passphrases := w_passphrases w @ [ap]\<rparr>"

definition WiFi_isConnected :: "env \<Rightarrow> world \<Rightarrow> bool \<times> world" where
  "WiFi_isConnected e w =
     (e_status e (w_status_calls w), w\<lparr>w_status_calls := w_status_calls w + 1\<rparr>)"

text \<open>\<open>hasIP\<close> stores the address the driver returns, also when the driver reports an error.\<close>

definition WiFi_hasIP :: "env \<Rightarrow> world \<Rightarrow> bool \<times> world" where
  "WiFi_hasIP e w =
     (case e_getip e (w_ip_calls w) of
        (addr, ok) \<Rightarrow> (ok, w\<lparr>w_ip := addr, w_ip_calls := w_ip_calls w + 1\<rparr>))"

definition maxAttempts :: nat where
  "maxAttempts = 8"

definition baseTimeout :: Duration where
  "baseTimeout = 125 * Millisecond"

text \<open>
  The loop of \<open>waitWithTimeout\<close>. Its state is the variables \<open>ok\<close>, \<open>attempt\<close> and
  \<open>timeout\<close> and the world. The guard is the loop condition; the body assigns \<open>ok\<close>
  and, when the poll failed, sleeps and doubles \<open>timeout\<close>; no statement of the body
  assigns \<open>attempt\<close>. The loop may run forever, so not returning is the value \<open>None\<close>.
  \<open>wait_rounds k\<close> is the state after the first \<open>k\<close> rounds, or the state in which the
  loop stopped before.
\<close>

type_synonym wait_state = "bool \<times> nat \<times> Duration \<times> world"

definition wait_guard :: "wait_state \<Rightarrow> bool" where
  "wait_guard s = (case s of (ok, attempt, timeout, w) \<Rightarrow> \<not> ok \<and> attempt < maxAttempts)"

definition wait_body :: "env \<Rightarrow> (world \<Rightarrow> bool \<times> world) \<Rightarrow> wait_state \<Rightarrow> wait_state" where
  "wait_body e ready s =
     (case s of
        (ok, attempt, timeout, w) \<Rightarrow>
          (case ready w of
             (ok', w') \<Rightarrow>
               if \<not> ok' then (ok', attempt, push_bit 1 timeout, time_Sleep e timeout w')
               else (ok', attempt, timeout, w')))"

partial_function (option) waitLoop ::
  "env \<Rightarrow> (world \<Rightarrow> bool \<times> world) \<Rightarrow> wait_state \<Rightarrow> (bool \<times> world) option"
where
  "waitLoop e ready s =
     (if wait_guard s then waitLoop e ready (wait_body e ready s)
      else (case s of (ok, attempt, timeout, w) \<Rightarrow> Some (ok, w)))"

fun wait_rounds :: "nat \<Rightarrow> env \<Rightarrow> (world \<Rightarrow> bool \<times> world) \<Rightarrow> wait_state \<Rightarrow> wait_state" where
  "wait_rounds 0 e ready s = s"
| "wait_rounds (Suc k) e ready s =
     (if wait_guard s then wait_rounds k e ready (wait_body e ready s) else s)"

definition WiFi_waitWithTimeout ::
  "env \<Rightarrow> (world \<Rightarrow> bool \<times> world) \<Rightarrow> world \<Rightarrow> (bool \<times> world) option" where
  "WiFi_waitWithTimeout e ready w = waitLoop e ready (False, 0, baseTimeout, w)"

definition WiFi_Connect :: "env \<Rightarrow> AP \<Rightarrow> world \<Rightarrow> (error option \<times> world) option" where
  "WiFi_Connect e ap w =
     (let w1 = time_Sleep e (2 * Second) w;
          w2 = nina_SetPassphrase ap w1
      in case WiFi_waitWithTimeout e (WiFi_isConnected e) w2 of
           None \<Rightarrow> None
         | Some (ok, w3) \<Rightarrow>
             if \<not> ok then Some (Some ErrConnectToAP, w3)
             else
               (case WiFi_waitWithTimeout e (WiFi_hasIP e) w3 of
                  None \<Rightarrow> None
                | Some (ok', w4) \<Rightarrow>
                    if \<not> ok' then Some (Some ErrNoIPAddress, w4)
                    else Some (None,
                      w4\<lparr>w_shared :=
                           model_Set (\<lambda>m. m\<lparr>m_AP := ap, m_IP := w_ip w4\<rparr>) (w_shared w4)\<rparr>)))"

definition WiFi_GetHostByName ::
  "env \<Rightarrow> string \<Rightarrow> world \<Rightarrow> (error + IPAddress) \<times> world" where
  "WiFi_GetHostByName e name w =
     (case WiFi_isConnected e w of
        (up, w1) \<Rightarrow>
          if \<not> up then (Inl ErrNotConnected, w1)
          else
            (case WiFi_hasIP e w1 of
               (has, w2) \<Rightarrow>
                 if \<not> has then (Inl ErrNotConnected, w2)
                 else
                   (case e_resolve e (w_resolves w2) name of
                      Inl msg \<Rightarrow> (Inl (ErrExternal msg), w2\<lparr>w_resolves := w_resolves w2 + 1\<rparr>)
                    | Inr addr \<Rightarrow> (Inr addr, w2\<lparr>w_resolves := w_resolves w2 + 1\<rparr>))))"

section \<open>Package ntp: the socket round trip\<close>

definition net_DialUDP :: "env \<Rightarrow> world \<Rightarrow> error option \<times> world" where
  "net_DialUDP e w = (map_option ErrExternal (e_dial e (w_dials w)), w\<lparr>w_dials := w_dials w + 1\<rparr>)"

definition conn_Write :: "env \<Rightarrow> datagram \<Rightarrow> world \<Rightarrow> error option \<times> world" where
  "conn_Write e d w =
     (map_option ErrExternal (e_write e (length (w_sent w))), w\<lparr>w_sent := w_sent w @ [d]\<rparr>)"

text \<open>
  \<open>conn.Read\<close> stores bytes in the buffer it is given, whose length it cannot change, and
  reports a count and an error; the call takes \<open>p_time\<close> nanoseconds.
\<close>

definition conn_Read :: "env \<Rightarrow> datagram \<Rightarrow> world \<Rightarrow> nat \<times> error option \<times> datagram \<times> world" where
  "conn_Read e d w =
     (let p = e_read e (w_reads w)
      in (p_count p, map_option ErrExternal (p_err p),
          take (length d) (p_bytes p) @ drop (length (p_bytes p)) d,
          w\<lparr>w_clock := w_clock w + int (p_time p), w_reads := w_reads w + 1\<rparr>))"

definition conn_Close :: "world \<Rightarrow> world" where
  "conn_Close w = w\<lparr>w_closed := w_closed w + 1\<rparr>"

definition NTP_write :: "env \<Rightarrow> NTP \<Rightarrow> world \<Rightarrow> error option \<times> NTP \<times> world" where
  "NTP_write e n w =
     (case NTP_write_datagram (n_config n) (n_datagram n) of
        Inl p \<Rightarrow> (Some p, n, w)
      | Inr d \<Rightarrow> (case conn_Write e d w of (err, w1) \<Rightarrow> (err, n\<lparr>n_datagram := d\<rparr>, w1)))"

definition readTimeout :: Duration where
  "readTimeout = 2 * Second"

text \<open>
  The loop of \<open>read\<close>: \<open>start\<close> is the time read before the loop, \<open>d\<close> the buffer.
\<close>

function read_loop ::
  "env \<Rightarrow> Time \<Rightarrow> datagram \<Rightarrow> world \<Rightarrow> error option \<times> datagram \<times> world" where
  "read_loop e start d w =
     (if sint (time_Since w start) \<le> sint readTimeout then
        (case conn_Read e d (time_Sleep e (5 * Millisecond) w) of
           (cnt, err, d1, w1) \<Rightarrow>
             (case err of
                Some er \<Rightarrow> (Some er, d1, w1)
              | None \<Rightarrow>
                  if cnt = 0 then read_loop e start d1 w1
                  else if cnt \<noteq> datagramSize then (Some ErrReadDatagramSize, d1, w1)
                  else (None, d1, w1)))
      else (Some ErrReadNoResponse, d, w))"
  by pat_completeness auto

text \<open>
  The loop ends: the clock moves on by at least 5 milliseconds in each round, and a round
  is entered only while no more than 2 seconds have passed since \<open>start\<close>.
\<close>

lemma sint_maxDuration: "sint maxDuration = 9223372036854775807"
  by (simp add: maxDuration_def)

lemma sint_minDuration: "sint minDuration = - 9223372036854775808"
  by (simp add: minDuration_def)

lemma sint_word_of_int_64:
  assumes "- 9223372036854775808 \<le> x" "x \<le> 9223372036854775807"
  shows "sint (word_of_int x :: 64 word) = x"
proof -
  have "(x + 9223372036854775808) mod 18446744073709551616 = x + 9223372036854775808"
    using assms by (intro mod_pos_pos_trivial) auto
  then show ?thesis by (simp add: int_word_sint)
qed

lemma sint_time_Sub:
  "sint (time_Sub t u) =
     max (- 9223372036854775808) (min 9223372036854775807 (t_ns t - t_ns u))"
proof -
  define d where "d = t_ns t - t_ns u"
  have "sint (if 9223372036854775807 < d then maxDuration
              else if d < - 9223372036854775808 then minDuration
              else (word_of_int d :: 64 word))
        = max (- 9223372036854775808) (min 9223372036854775807 d)"
    using sint_word_of_int_64 [of d]
    by (simp add: sint_maxDuration sint_minDuration)
  then show ?thesis
    unfolding time_Sub_def Let_def d_def sint_maxDuration sint_minDuration .
qed

lemma sint_readTimeout: "sint readTimeout = 2000000000"
  by (simp add: readTimeout_def Second_def)

lemma since_le_timeout:
  "sint (time_Since w start) \<le> sint readTimeout \<longleftrightarrow> w_clock w - t_ns start \<le> 2000000000"
  by (auto simp: time_Since_def sint_time_Sub sint_readTimeout time_Now_def)

lemma clock_Sleep_5ms: "w_clock w + 5000000 \<le> w_clock (time_Sleep e (5 * Millisecond) w)"
  by (simp add: time_Sleep_def Millisecond_def)

lemma clock_conn_Read: "conn_Read e d w = (cnt, err, d1, w1) \<Longrightarrow> w_clock w \<le> w_clock w1"
  by (auto simp: conn_Read_def Let_def)

termination read_loop
  apply (relation "measure (\<lambda>(e, start, d, w). nat (2000000001 - (w_clock w - t_ns start)))")
   apply simp
  apply (simp only: since_le_timeout)
  subgoal premises p for e start d w cnt y err z d1 w1
    using p clock_Sleep_5ms [of w e]
      clock_conn_Read [of e d "time_Sleep e (5 * Millisecond) w" cnt err d1 w1]
    by auto
  done

declare read_loop.simps [simp del]

text \<open>A poll that found no packet: \<open>conn.Read\<close> reports no byte and no error.\<close>

definition idle :: "poll \<Rightarrow> bool" where
  "idle p \<longleftrightarrow> p_count p = 0 \<and> p_err p = None"

definition NTP_read :: "env \<Rightarrow> NTP \<Rightarrow> world \<Rightarrow> error option \<times> NTP \<times> world" where
  "NTP_read e n w =
     (case read_loop e (time_Now w) (datagram_reset (n_datagram n)) w of
        (err, d, w1) \<Rightarrow> (err, n\<lparr>n_datagram := d\<rparr>, w1))"

definition NTP_request :: "env \<Rightarrow> NTP \<Rightarrow> world \<Rightarrow> (error + Time) \<times> NTP \<times> world" where
  "NTP_request e n w =
     (case NTP_write e n w of
        (Some err, n1, w1) \<Rightarrow> (Inl err, n1, w1)
      | (None, n1, w1) \<Rightarrow>
          (case NTP_read e n1 w1 of
             (Some err, n2, w2) \<Rightarrow> (Inl err, n2, w2)
           | (None, n2, w2) \<Rightarrow> (datagram_parse (n_datagram n2), n2, w2)))"

section \<open>Package ntp: Sync\<close>

text \<open>
  The block of \<open>Sync\<close> under \<open>if systemExpired\<close>. A result \<open>Some err\<close> is one of its
  \<open>return err\<close> statements. The remainder \<open>%\<close> panics when the server list is empty.
\<close>

definition NTP_Sync_fetch :: "env \<Rightarrow> NTP \<Rightarrow> world \<Rightarrow> error option \<times> NTP \<times> world" where
  "NTP_Sync_fetch e n w =
     (case model_Get (w_shared w) of
        ((_, m), sh) \<Rightarrow>
          let w1 = w\<lparr>w_shared := sh\<rparr>;
              len = (word_of_nat (length (Server (n_config n))) :: 32 word)
          in if len = 0 then (Some (Panic ''integer divide by zero''), n, w1)
             else
               let idx = unat (m_Retry m mod len)
               in case WiFi_GetHostByName e (Server (n_config n) ! idx) w1 of
                    (Inl err, w2) \<Rightarrow> (Some err, n, w2)
                  | (Inr host, w2) \<Rightarrow>
                      (case net_DialUDP e w2 of
                         (Some err, w3) \<Rightarrow> (Some err, n, w3)
                       | (None, w3) \<Rightarrow>
                           (case NTP_request e n w3 of
                              (Inl err, n4, w4) \<Rightarrow> (Some err, n4, w4)
                            | (Inr cur, n4, w4) \<Rightarrow>
                                let w5 = conn_Close w4;
                                    w6 = runtime_AdjustTimeOffset (- 1 * time_Since w5 cur) w5
                                in (None, n4\<lparr>n_lastSync := time_Now w6\<rparr>, w6))))"

text \<open>The block of \<open>Sync\<close> under \<open>if modelExpired\<close>.\<close>

definition NTP_Sync_post :: "NTP \<Rightarrow> world \<Rightarrow> NTP \<times> world" where
  "NTP_Sync_post n w =
     (let n1 = n\<lparr>n_lastPost := time_Now w\<rparr>
      in (n1, w\<lparr>w_shared :=
                  model_Set (\<lambda>m. m\<lparr>m_Time := time_In (n_lastPost n1) (n_locale n1)\<rparr>)
                    (w_shared w)\<rparr>))"

definition NTP_Sync :: "env \<Rightarrow> NTP \<Rightarrow> world \<Rightarrow> error option \<times> NTP \<times> world" where
  "NTP_Sync e n w =
     (case NTP_isExpired n (time_Now w) of
        (systemExpired, modelExpired) \<Rightarrow>
          (case (if systemExpired then NTP_Sync_fetch e n w else (None, n, w)) of
             (Some err, n1, w1) \<Rightarrow> (Some err, n1, w1)
           | (None, n1, w1) \<Rightarrow>
               if modelExpired
               then (case NTP_Sync_post n1 w1 of (n2, w2) \<Rightarrow> (None, n2, w2))
               else (None, n1, w1)))"

section \<open>Package run: one round of the main loop\<close>

definition set_Status :: "Status \<Rightarrow> world \<Rightarrow> world" where
  "set_Status st w = w\<lparr>w_shared := model_Set (\<lambda>m. m\<lparr>m_Status := st\<rparr>) (w_shared w)\<rparr>"

text \<open>
  The loop over \<open>network.Network\<close> in state \<open>StatusConnecting\<close>. The list of access points
  is declared in a package that is not part of the sources at hand, so it is a parameter.
  The body has no \<open>break\<close>.
\<close>

fun Run_connect :: "env \<Rightarrow> AP list \<Rightarrow> world \<Rightarrow> world option" where
  "Run_connect e [] w = Some w"
| "Run_connect e (ap # aps) w =
     (case WiFi_Connect e ap w of
        None \<Rightarrow> None
      | Some (Some err, w1) \<Rightarrow> Run_connect e aps (println (SSID ap @ '': '' @ Error err) w1)
      | Some (None, w1) \<Rightarrow> Run_connect e aps (set_Status StatusUnsynchronized w1))"

text \<open>
  The two ways the loop calls \<open>Sync\<close>: in state \<open>StatusUnsynchronized\<close> a success moves
  on to \<open>StatusSynchronized\<close>; in state \<open>StatusSynchronized\<close> a failure moves back to
  \<open>StatusUnsynchronized\<close>. A panic inside \<open>Sync\<close> ends the program (\<open>Inl\<close>).
\<close>

definition Run_unsynchronized :: "env \<Rightarrow> NTP \<Rightarrow> world \<Rightarrow> string + NTP \<times> world" where
  "Run_unsynchronized e n w =
     (case NTP_Sync e n w of
        (Some (Panic msg), n1, w1) \<Rightarrow> Inl msg
      | (Some err, n1, w1) \<Rightarrow> Inr (n1, println (''error: '' @ Error err) w1)
      | (None, n1, w1) \<Rightarrow> Inr (n1, set_Status StatusSynchronized w1))"

definition Run_synchronized :: "env \<Rightarrow> NTP \<Rightarrow> world \<Rightarrow> string + NTP \<times> world" where
  "Run_synchronized e n w =
     (case NTP_Sync e n w of
        (Some (Panic msg), n1, w1) \<Rightarrow> Inl msg
      | (Some err, n1, w1) \<Rightarrow>
          Inr (n1, set_Status StatusUnsynchronized (println (''error: '' @ Error err) w1))
      | (None, n1, w1) \<Rightarrow> Inr (n1, w1))"

text \<open>
  One round of the \<open>for\<close> loop of \<open>Run\<close>, up to and including its sleep of 10
  milliseconds. \<open>None\<close>: the round does not end; \<open>Some (Inl msg)\<close>: the program panicked.
\<close>

definition Run_tick :: "env \<Rightarrow> AP list \<Rightarrow> NTP \<Rightarrow> world \<Rightarrow> (string + NTP \<times> world) option" where
  "Run_tick e network n w =
     (case model_Get (w_shared w) of
        ((chg, data), sh) \<Rightarrow>
          let w0 = w\<lparr>w_shared := sh\<rparr>;
              body =
                (if chg then
                   let w1 = display_Update data w0
                   in case m_Status data of
                        StatusIdle \<Rightarrow> Some (Inr (n, set_Status StatusConnecting w1))
                      | StatusDisconnected \<Rightarrow> Some (Inr (n, set_Status StatusConnecting w1))
                      | StatusConnecting \<Rightarrow>
                          map_option (\<lambda>w2. Inr (n, w2)) (Run_connect e network w1)
                      | StatusUnsynchronized \<Rightarrow>
                          Some (Run_unsynchronized e n
                            (w1\<lparr>w_shared := model_Mod (\<lambda>m. m\<lparr>m_Retry := 0\<rparr>) (w_shared w1)\<rparr>))
                      | StatusSynchronized \<Rightarrow> Some (Run_synchronized e n w1)
                 else
                   (case m_Status data of
                      StatusUnsynchronized \<Rightarrow>
                        Some (Run_unsynchronized e n
                          (w0\<lparr>w_shared :=
                                model_Mod (\<lambda>m. m\<lparr>m_Retry := m_Retry m + 1\<rparr>) (w_shared w0)\<rparr>))
                    | StatusSynchronized \<Rightarrow> Some (Run_synchronized e n w0)
                    | _ \<Rightarrow> Some (Inr (n, w0))))
          in case body of
               None \<Rightarrow> None
             | Some (Inl msg) \<Rightarrow> Some (Inl msg)
             | Some (Inr (n1, w1)) \<Rightarrow> Some (Inr (n1, time_Sleep e (10 * Millisecond) w1)))"

text \<open>The statement of \<open>Run\<close> before its loop.\<close>

definition Run_init :: "world \<Rightarrow> world" where
  "Run_init w = set_Status StatusDisconnected w"

section \<open>Reference values\<close>

text \<open>
  \<open>main\<close> builds the NTP client from the zero value \<open>ntp.Config{}\<close>.
\<close>

definition Config_zero :: Config where
  "Config_zero = \<lparr>Server = [], RemotePort = 0, LocalPort = 0, TZOffset = 0, Interval = 0,
     Precision = 0, LeapSmear = False\<rparr>"

text \<open>
  The request layout in the words of the specification: byte 0 is \<open>0b11100011\<close>, with the
  alarm bits OR-ed in when the server does not leap-smear; then stratum 0, poll interval 6,
  precision \<open>0xEC\<close>, eight zero bytes, the reference identifier \<open>1N14\<close>, and zeros.
\<close>

definition spec_request :: "bool \<Rightarrow> datagram" where
  "spec_request smear =
     [if smear then 0b11100011 else 0b11100011 OR 0b00000011, 0, 6, 0xEC]
       @ replicate 8 0 @ [49, 0x4E, 49, 52] @ replicate 32 0"

text \<open>A response whose bytes 40 to 43 are those of the specification's example.\<close>

definition example_response :: datagram where
  "example_response = replicate 40 0 @ [0xD3, 0x4A, 0x9F, 0x80] @ replicate 4 0"

text \<open>
  A world before anything has happened, with the clock at the start of 1970, and two
  environments: one where the access point never answers and no packet ever arrives, one
  where every call succeeds at once and the socket delivers the example response.
\<close>

definition Model_zero :: Model where
  "Model_zero = \<lparr>m_AP = \<lparr>SSID = [], Pass = []\<rparr>, m_IP = [], m_Time = zeroTime, m_Retry = 0,
     m_Status = StatusIdle\<rparr>"

definition world_zero :: world where
  "world_zero = \<lparr>w_shared = \<lparr>s_data = Model_zero, s_changed = False\<rparr>, w_ip = [],
     w_clock = 62135596800000000000, w_slept = [], w_status_calls = 0, w_ip_calls = 0,
     w_passphrases = [], w_resolves = 0, w_dials = 0, w_sent = [], w_reads = 0, w_closed = 0,
     w_displayed = [], w_printed = []\<rparr>"

definition env_down :: env where
  "env_down = \<lparr>e_lag = (\<lambda>_. 0), e_status = (\<lambda>_. False), e_getip = (\<lambda>_. ([], False)),
     e_resolve = (\<lambda>_ _. Inl ''no route''), e_dial = (\<lambda>_. Some ''no route''),
     e_write = (\<lambda>_. Some ''no route''),
     e_read = (\<lambda>_. \<lparr>p_count = 0, p_bytes = [], p_err = None, p_time = 0\<rparr>)\<rparr>"

definition env_up :: env where
  "env_up = \<lparr>e_lag = (\<lambda>_. 0), e_status = (\<lambda>_. True), e_getip = (\<lambda>_. (''10.0.0.2'', True)),
     e_resolve = (\<lambda>_ _. Inr ''216.239.35.0''), e_dial = (\<lambda>_. None),
     e_write = (\<lambda>_. None),
     e_read = (\<lambda>_. \<lparr>p_count = 48, p_bytes = example_response, p_err = None, p_time = 0\<rparr>)\<rparr>"

definition ap_home :: AP where
  "ap_home = \<lparr>SSID = ''home'', Pass = ''secret''\<rparr>"

definition ap_work :: AP where
  "ap_work = \<lparr>SSID = ''work'', Pass = ''hidden''\<rparr>"

text \<open>The world in which \<open>StatusConnecting\<close> has just been written.\<close>

definition world_connecting :: world where
  "world_connecting = set_Status StatusConnecting world_zero"

section \<open>The shared state: change flag\<close>

lemma model_Mod_changed: "s_changed (fold model_Mod ms s) = s_changed s"
  by (induction ms arbitrary: s) (simp_all add: model_Mod_def)

lemma mutate_changed:
  "s_changed (fold mutate ms s) = (s_changed s \<or> (\<exists>f. DoSet f \<in> set ms))"
proof (induction ms arbitrary: s)
  case Nil
  then show ?case by simp
next
  case (Cons m ms)
  then show ?case
    by (cases m) (auto simp: model_Set_def model_Mod_def)
qed

text \<open>
  Claim C5. After \<open>Set\<close>, the next \<open>Get\<close> returns \<open>changed = true\<close> with a copy of the
  data and clears the flag, also when further \<open>Set\<close> and \<open>Mod\<close> calls come in between; a
  further \<open>Get\<close> with no \<open>Set\<close> in between returns \<open>changed = false\<close>; any number of
  \<open>Mod\<close> calls leaves the flag as it was, so \<open>Mod\<close> alone never makes a later \<open>Get\<close>
  return \<open>changed = true\<close>: after a \<open>Get\<close>, the next \<open>Get\<close> reports a change exactly when
  a \<open>Set\<close> came in between.
\<close>

theorem change_flag_round_trip:
  "model_Get (model_Set f s) =
     ((True, f (s_data s)), \<lparr>s_data = f (s_data s), s_changed = False\<rparr>)
   \<and> fst (fst (model_Get (snd (model_Get s)))) = False
   \<and> fst (fst (model_Get (fold model_Mod fs (snd (model_Get s))))) = False
   \<and> fst (fst (model_Get (fold model_Mod fs s))) = s_changed s
   \<and> fst (fst (model_Get (fold mutate ms (model_Set f s)))) = True
   \<and> fst (fst (model_Get (fold mutate ms (snd (model_Get s))))) = (\<exists>g. DoSet g \<in> set ms)"
  by (simp add: model_Get_def model_Set_def model_Mod_changed mutate_changed)

section \<open>Expiration\<close>

lemma sint_bounds_64: "- 9223372036854775808 \<le> sint (x :: 64 word)" "sint (x :: 64 word) \<le> 9223372036854775807"
  using sint_ge [of x] sint_lt [of x] by simp_all

lemma sint_min_iff: "sint (x :: 64 word) = - 9223372036854775808 \<longleftrightarrow> x = minDuration"
  by (metis sint_minDuration word_eq_iff_signed)

lemma isExpired_iff:
  "isExpired at since span \<longleftrightarrow>
     t_ns at = 0 \<or> sint span \<le> max (- 9223372036854775808) (min 9223372036854775807 (t_ns at - t_ns since))"
  by (simp add: isExpired_def sint_time_Sub time_IsZero_def)

lemma isExpired_never_synced:
  "9223372036854775807 \<le> t_ns now \<Longrightarrow> isExpired now zeroTime span"
  using sint_bounds_64 [of span] by (simp add: isExpired_iff zeroTime_def)

lemma isExpired_at_span:
  "t_ns since = t_ns now - sint span \<Longrightarrow> isExpired now since span"
  using sint_bounds_64 [of span] by (simp add: isExpired_iff)

lemma isExpired_before_span:
  "t_ns now \<noteq> 0 \<Longrightarrow> span \<noteq> minDuration \<Longrightarrow> t_ns since = t_ns now - sint span + 1
    \<Longrightarrow> \<not> isExpired now since span"
  using sint_bounds_64 [of span] sint_min_iff [of span] by (simp add: isExpired_iff)

lemma sint_neg_64:
  "span \<noteq> minDuration \<Longrightarrow> sint (- span :: 64 word) = - sint span"
  using sint_bounds_64 [of span] sint_min_iff [of span] sint_word_of_int_64 [of "- sint span"]
  by (simp add: )

lemma isExpired_at_span_Add: "isExpired now (time_Add now (- span)) span"
proof (cases "span = minDuration")
  case True
  then show ?thesis by (simp add: isExpired_iff time_Add_def sint_minDuration minDuration_def)
next
  case False
  then show ?thesis by (simp add: isExpired_at_span time_Add_def sint_neg_64)
qed

lemma isExpired_before_span_Add:
  "t_ns now \<noteq> 0 \<Longrightarrow> span \<noteq> minDuration \<Longrightarrow> \<not> isExpired now (time_Add (time_Add now (- span)) 1) span"
  by (rule isExpired_before_span) (simp_all add: time_Add_def sint_neg_64)

text \<open>
  Claim C4, as the code has it. \<open>isExpired\<close> tests whether \<open>at\<close> is the zero time, not
  \<open>since\<close>; with \<open>since\<close> the zero time the result is true for every span once \<open>now\<close>
  lies at least the largest duration (about 292 years) after the zero time, because the
  subtraction saturates; every clock reading from 1970 on is that late. At
  \<open>since = now - span\<close> the result is true for every \<open>now\<close> and every span, whether
  \<open>now - span\<close> is the exact instant or Go's \<open>now.Add(-span)\<close>. One nanosecond later the
  result is false for every non-zero \<open>now\<close> and every span but the smallest duration.
\<close>

theorem isExpired_boundary:
  "(9223372036854775807 \<le> t_ns now \<longrightarrow> isExpired now zeroTime span)
   \<and> (t_ns since = t_ns now - sint span \<longrightarrow> isExpired now since span)
   \<and> isExpired now (time_Add now (- span)) span
   \<and> (t_ns now \<noteq> 0 \<and> span \<noteq> minDuration \<and> t_ns since = t_ns now - sint span + 1
        \<longrightarrow> \<not> isExpired now since span)
   \<and> (t_ns now \<noteq> 0 \<and> span \<noteq> minDuration
        \<longrightarrow> \<not> isExpired now (time_Add (time_Add now (- span)) 1) span)"
  using isExpired_never_synced isExpired_at_span isExpired_at_span_Add isExpired_before_span
    isExpired_before_span_Add
  by blast

theorem isExpired_boundary_witness:
  "9223372036854775807 \<le> t_ns (time_Unix 0 0)
   \<and> isExpired (time_Unix 0 0) zeroTime DefaultInterval
   \<and> t_ns (time_Unix (- 21600) 0) = t_ns (time_Unix 0 0) - sint DefaultInterval
   \<and> isExpired (time_Unix 0 0) (time_Unix (- 21600) 0) DefaultInterval
   \<and> t_ns (time_Unix 0 0) \<noteq> 0 \<and> DefaultInterval \<noteq> minDuration
   \<and> t_ns (time_Unix (- 21600) 1) = t_ns (time_Unix 0 0) - sint DefaultInterval + 1
   \<and> \<not> isExpired (time_Unix 0 0) (time_Unix (- 21600) 1) DefaultInterval"
proof -
  have a: "9223372036854775807 \<le> t_ns (time_Unix 0 0)"
    by (simp add: time_Unix_def unixToInternal_def)
  have b: "t_ns (time_Unix (- 21600) 0) = t_ns (time_Unix 0 0) - sint DefaultInterval"
    by (simp add: time_Unix_def unixToInternal_def DefaultInterval_def Hour_def)
  have c: "t_ns (time_Unix 0 0) \<noteq> 0 \<and> DefaultInterval \<noteq> minDuration
     \<and> t_ns (time_Unix (- 21600) 1) = t_ns (time_Unix 0 0) - sint DefaultInterval + 1"
    by (simp add: time_Unix_def unixToInternal_def DefaultInterval_def Hour_def minDuration_def)
  show ?thesis
    using a b c
      isExpired_boundary [of "time_Unix 0 0" DefaultInterval "time_Unix (- 21600) 0"]
      isExpired_boundary [of "time_Unix 0 0" DefaultInterval "time_Unix (- 21600) 1"]
    by blast
qed

text \<open>
  The claim as it is written fails twice: one nanosecond after the zero time, with
  \<open>since\<close> the zero time and a span of two nanoseconds, nothing has expired; and for the
  smallest duration as span, \<open>since = now - span + 1\<close> has expired.
\<close>

theorem isExpired_counterexample:
  "\<not> isExpired \<lparr>t_ns = 1, t_zone = 0\<rparr> zeroTime 2
   \<and> isExpired \<lparr>t_ns = 1, t_zone = 0\<rparr>
        \<lparr>t_ns = 1 - sint minDuration + 1, t_zone = 0\<rparr> minDuration"
  by (simp add: isExpired_def sint_time_Sub zeroTime_def time_IsZero_def sint_minDuration)

section \<open>The request datagram\<close>

lemma reset48: "length d = 48 \<Longrightarrow> datagram_reset d = replicate 48 0"
  by (simp add: datagram_reset_def map_replicate_const)

lemma write_datagram_48:
  "length d = 48 \<Longrightarrow>
     NTP_write_datagram c d =
       Inr ([0xE3, 0, 6, 0xEC] @ replicate 8 0 @ [49, 0x4E, 49, 52] @ replicate 32 0)"
  by (simp add: NTP_write_datagram_def Let_def reset48) (simp add: numeral_eq_Suc)

lemma spec_request_eq:
  "spec_request smear = [0xE3, 0, 6, 0xEC] @ replicate 8 0 @ [49, 0x4E, 49, 52] @ replicate 32 0"
  by (simp add: spec_request_def)

lemma write_datagram_smear:
  "NTP_write_datagram (c\<lparr>LeapSmear := b\<rparr>) d = NTP_write_datagram c d"
proof (cases "length d < 16")
  case True
  then show ?thesis by (simp add: NTP_write_datagram_def Let_def datagram_reset_def)
next
  case False
  then have "0 < length (datagram_reset d)"
    by (cases d) (simp_all add: datagram_reset_def)
  then have "(datagram_reset d)[0 := 0b11100011] ! 0 = 0b11100011"
    by (rule nth_list_update_eq)
  then show ?thesis by (simp add: NTP_write_datagram_def Let_def)
qed

text \<open>
  Claim C8. For a client whose buffer has the 48 bytes \<open>New\<close> gives it, the buffer that
  \<open>write\<close> builds, keeps and hands to the socket is the layout of the specification:
  byte 0 is \<open>0b11100011\<close> (the alarm bits OR-ed in or not), byte 1 is 0, byte 2 is 6, byte 3
  is \<open>0xEC\<close>, bytes 12 to 15 are 49, \<open>0x4E\<close>, 49, 52, and every other byte is zero.
\<close>

theorem request_layout:
  assumes "length (n_datagram n) = datagramSize"
  shows "NTP_write_datagram (n_config n) (n_datagram n) = Inr (spec_request (LeapSmear (n_config n)))
     \<and> n_datagram (fst (snd (NTP_write e n w))) = spec_request (LeapSmear (n_config n))
     \<and> w_sent (snd (snd (NTP_write e n w))) = w_sent w @ [spec_request (LeapSmear (n_config n))]
     \<and> length (spec_request (LeapSmear (n_config n))) = 48
     \<and> spec_request (LeapSmear (n_config n)) ! 0 = 0b11100011
     \<and> (\<forall>i<48. i \<notin> {0, 2, 3, 12, 13, 14, 15} \<longrightarrow> spec_request (LeapSmear (n_config n)) ! i = 0)"
proof -
  have b: "NTP_write_datagram (n_config n) (n_datagram n) = Inr (spec_request (LeapSmear (n_config n)))"
    using assms by (simp add: write_datagram_48 spec_request_eq datagramSize_def)
  have z: "\<forall>i<48. i \<notin> {0, 2, 3, 12, 13, 14, 15} \<longrightarrow> spec_request smear ! i = 0" for smear
    by (auto simp: spec_request_eq nth_append nth_Cons')
  show ?thesis
    using b z by (simp add: NTP_write_def conn_Write_def) (simp add: spec_request_eq)
qed

theorem request_layout_witness:
  "length (n_datagram (NTP_New Config_zero)) = datagramSize
   \<and> NTP_write_datagram (n_config (NTP_New Config_zero)) (n_datagram (NTP_New Config_zero))
       = Inr ([0xE3, 0, 6, 0xEC] @ replicate 8 0 @ [49, 0x4E, 49, 52] @ replicate 32 0)"
proof -
  have l: "length (n_datagram (NTP_New Config_zero)) = datagramSize"
    by (simp add: NTP_New_def Let_def)
  show ?thesis
    using l request_layout [OF l] by (simp add: spec_request_def)
qed

text \<open>
  Claim C10. Two configurations that differ in \<open>LeapSmear\<close> only give the same request:
  the same buffer, the same bytes on the socket and the same result of \<open>write\<close>, since
  OR-ing \<open>0b00000011\<close> into \<open>0b11100011\<close> changes nothing.
\<close>

theorem leap_smear_no_effect:
  "NTP_write_datagram (c\<lparr>LeapSmear := True\<rparr>) d = NTP_write_datagram (c\<lparr>LeapSmear := False\<rparr>) d
   \<and> fst (NTP_write e (n\<lparr>n_config := (n_config n)\<lparr>LeapSmear := True\<rparr>\<rparr>) w)
       = fst (NTP_write e (n\<lparr>n_config := (n_config n)\<lparr>LeapSmear := False\<rparr>\<rparr>) w)
   \<and> snd (snd (NTP_write e (n\<lparr>n_config := (n_config n)\<lparr>LeapSmear := True\<rparr>\<rparr>) w))
       = snd (snd (NTP_write e (n\<lparr>n_config := (n_config n)\<lparr>LeapSmear := False\<rparr>\<rparr>) w))
   \<and> n_datagram (fst (snd (NTP_write e (n\<lparr>n_config := (n_config n)\<lparr>LeapSmear := True\<rparr>\<rparr>) w)))
       = n_datagram (fst (snd (NTP_write e (n\<lparr>n_config := (n_config n)\<lparr>LeapSmear := False\<rparr>\<rparr>) w)))
   \<and> (0b11100011 :: 8 word) OR 0b00000011 = 0b11100011"
  by (simp add: NTP_write_def write_datagram_smear split: sum.split prod.split)

section \<open>The response datagram\<close>

lemma or_push:
  assumes "0 \<le> y" "y < 2 ^ n"
  shows "push_bit n x OR y = push_bit n x + (y::int)"
proof -
  have "take_bit n y = y" using assms by (simp add: take_bit_int_eq_self)
  then show ?thesis
    using concat_bit_eq [of n y x] concat_bit_def [of n y x]
    by (simp add: or.commute add.commute)
qed

lemma uint_byte: "uint (ucast (a :: 8 word) :: 32 word) = uint a"
  by (simp add: uint_up_ucast is_up)

lemma uint_byte_bound: "uint (a :: 8 word) < 256" "0 \<le> uint a"
  using uint_bounded [of a] by simp_all

lemma uint_push_byte:
  "uint (push_bit 24 (ucast (a :: 8 word)) :: 32 word) = push_bit 24 (uint a)"
  "uint (push_bit 16 (ucast (a :: 8 word)) :: 32 word) = push_bit 16 (uint a)"
  "uint (push_bit 8 (ucast (a :: 8 word)) :: 32 word) = push_bit 8 (uint a)"
  using uint_byte_bound [of a]
  by (simp_all add: push_bit_eq_mult uint_word_ariths uint_byte)

lemma be32_int:
  assumes "0 \<le> a" "a < 256" "0 \<le> b" "b < 256" "0 \<le> c" "c < 256" "0 \<le> d" "d < 256"
  shows "push_bit 24 a OR push_bit 16 b OR push_bit 8 c OR d
         = a * 16777216 + b * 65536 + c * 256 + (d::int)"
proof -
  have 1: "push_bit 8 c OR d = push_bit 8 c + d"
    using assms by (intro or_push) auto
  have 2: "push_bit 16 b OR (push_bit 8 c + d) = push_bit 16 b + (push_bit 8 c + d)"
    using assms by (intro or_push) (auto simp: push_bit_eq_mult)
  have 3: "push_bit 24 a OR (push_bit 16 b + (push_bit 8 c + d))
           = push_bit 24 a + (push_bit 16 b + (push_bit 8 c + d))"
    using assms by (intro or_push) (auto simp: push_bit_eq_mult)
  show ?thesis
    by (simp only: or.assoc 1 2 3) (simp add: push_bit_eq_mult)
qed

lemma uint_datagram_seconds:
  "uint (datagram_seconds d) =
     uint (d ! 40) * 16777216 + uint (d ! 41) * 65536 + uint (d ! 42) * 256 + uint (d ! 43)"
  unfolding datagram_seconds_def
  using be32_int [of "uint (d ! 40)" "uint (d ! 41)" "uint (d ! 42)" "uint (d ! 43)"] uint_byte_bound
  by (simp add: uint_or uint_push_byte uint_byte)

lemma uint_sub_seventyYears:
  "uint (x - seventyYears) = (uint x - 2208988800) mod 4294967296"
  by (simp add: uint_word_ariths seventyYears_def)

lemma datagram_seconds_tail:
  "datagram_seconds (d[44 := b4, 45 := b5, 46 := b6, 47 := b7]) = datagram_seconds d"
  by (simp add: datagram_seconds_def)

text \<open>
  Claim C9, as the code has it. For a buffer of 48 bytes, \<open>parse\<close> reads bytes 40 to 43
  as a big-endian 32-bit count of seconds and subtracts 2208988800 in unsigned 32-bit
  arithmetic: the result is the count minus 2208988800 when the count is at least
  2208988800, and the count plus 2085978496 (that is, plus \<open>2^32 - 2208988800\<close>) when it is
  smaller. Bytes 44 to 47 do not matter. For the bytes \<open>0xD3, 0x4A, 0x9F, 0x80\<close> the result
  is \<open>Unix(0xD34A9F80 - 2208988800, 0)\<close>.
\<close>

theorem parse_transmit_seconds:
  assumes "length d = datagramSize"
  shows "uint (datagram_seconds d) =
           uint (d ! 40) * 16777216 + uint (d ! 41) * 65536 + uint (d ! 42) * 256 + uint (d ! 43)
     \<and> datagram_parse d =
           Inr (time_Unix ((uint (datagram_seconds d) - 2208988800) mod 4294967296) 0)
     \<and> (2208988800 \<le> uint (datagram_seconds d) \<longrightarrow>
           datagram_parse d = Inr (time_Unix (uint (datagram_seconds d) - 2208988800) 0))
     \<and> (uint (datagram_seconds d) < 2208988800 \<longrightarrow>
           datagram_parse d = Inr (time_Unix (uint (datagram_seconds d) + 2085978496) 0))
     \<and> datagram_parse (d[44 := b4, 45 := b5, 46 := b6, 47 := b7]) = datagram_parse d
     \<and> (d ! 40 = 0xD3 \<and> d ! 41 = 0x4A \<and> d ! 42 = 0x9F \<and> d ! 43 = 0x80 \<longrightarrow>
           datagram_parse d = Inr (time_Unix (0xD34A9F80 - 2208988800) 0))"
proof -
  have len: "\<not> length d < 44" using assms by (simp add: datagramSize_def)
  have p: "datagram_parse d =
      Inr (time_Unix ((uint (datagram_seconds d) - 2208988800) mod 4294967296) 0)"
    using len by (simp add: datagram_parse_def uint_sub_seventyYears)
  have bound: "0 \<le> uint (datagram_seconds d)" "uint (datagram_seconds d) < 4294967296"
    using uint_bounded [of "datagram_seconds d"] by simp_all
  have hi: "2208988800 \<le> uint (datagram_seconds d) \<Longrightarrow>
      (uint (datagram_seconds d) - 2208988800) mod 4294967296 = uint (datagram_seconds d) - 2208988800"
    using bound by (intro mod_pos_pos_trivial) auto
  have lo: "uint (datagram_seconds d) < 2208988800 \<Longrightarrow>
      (uint (datagram_seconds d) - 2208988800) mod 4294967296 = uint (datagram_seconds d) + 2085978496"
  proof -
    assume a: "uint (datagram_seconds d) < 2208988800"
    have "(uint (datagram_seconds d) - 2208988800) mod 4294967296
        = (uint (datagram_seconds d) - 2208988800 + 4294967296) mod 4294967296"
      by (simp only: mod_add_self2)
    also have "\<dots> = (uint (datagram_seconds d) + 2085978496) mod 4294967296"
      by (simp add: add.commute)
    also have "\<dots> = uint (datagram_seconds d) + 2085978496"
      using a bound by (intro mod_pos_pos_trivial) auto
    finally show ?thesis .
  qed
  have tail: "datagram_parse (d[44 := b4, 45 := b5, 46 := b6, 47 := b7]) = datagram_parse d"
    by (simp add: datagram_parse_def datagram_seconds_tail)
  have ex: "d ! 40 = 0xD3 \<and> d ! 41 = 0x4A \<and> d ! 42 = 0x9F \<and> d ! 43 = 0x80 \<Longrightarrow>
      datagram_parse d = Inr (time_Unix (0xD34A9F80 - 2208988800) 0)"
    using p by (simp add: uint_datagram_seconds)
  show ?thesis
    using uint_datagram_seconds p hi lo tail ex by presburger
qed

theorem parse_transmit_seconds_witness:
  "length example_response = datagramSize
   \<and> 2208988800 \<le> uint (datagram_seconds example_response)
   \<and> example_response ! 40 = 0xD3 \<and> example_response ! 41 = 0x4A
   \<and> example_response ! 42 = 0x9F \<and> example_response ! 43 = 0x80
   \<and> datagram_parse example_response = Inr (time_Unix 1335894272 0)
   \<and> length (replicate 48 (0 :: 8 word)) = datagramSize
   \<and> uint (datagram_seconds (replicate 48 0)) < 2208988800
   \<and> datagram_parse (replicate 48 0) = Inr (time_Unix 2085978496 0)"
proof -
  have l: "length example_response = datagramSize"
    by (simp add: example_response_def datagramSize_def)
  have b: "example_response ! 40 = 0xD3 \<and> example_response ! 41 = 0x4A
     \<and> example_response ! 42 = 0x9F \<and> example_response ! 43 = 0x80"
    by (simp add: example_response_def nth_append)
  have z: "length (replicate 48 (0 :: 8 word)) = datagramSize"
    by (simp add: datagramSize_def)
  show ?thesis
    using l b z parse_transmit_seconds [OF l] parse_transmit_seconds [OF z] by simp
qed

text \<open>
  The claim as it is written, with a subtraction of integers, fails for a count below
  2208988800: a buffer of zeros is parsed as second 2085978496 of the 1970 epoch (the
  year 2036), and not as second \<open>0 - 2208988800\<close> (the year 1900).
\<close>

theorem parse_counterexample:
  "datagram_parse (replicate 48 0) = Inr (time_Unix 2085978496 0)
   \<and> datagram_parse (replicate 48 0) \<noteq> Inr (time_Unix (0 - 2208988800) 0)"
  by (simp add: datagram_parse_def datagram_seconds_def seventyYears_def time_Unix_def)

section \<open>Waiting for the link\<close>

lemma waitLoop_never_Some:
  "waitLoop e ready s = Some y \<Longrightarrow> (\<forall>v. \<not> fst (ready v)) \<longrightarrow> wait_guard s \<longrightarrow> False"
proof (induction e ready s y rule: waitLoop.raw_induct [rotated 1, consumes 1])
  case (1 waitLoop e ready s y)
  show ?case
  proof (intro impI)
    assume never: "\<forall>v. \<not> fst (ready v)" and guard: "wait_guard s"
    obtain ok attempt timeout w where s: "s = (ok, attempt, timeout, w)"
      by (cases s) auto
    obtain ok' w' where r: "ready w = (ok', w')"
      by (cases "ready w") auto
    with never have f: "\<not> ok'" by (metis fst_conv)
    from guard s r f have "wait_guard (wait_body e ready s)"
      by (simp add: wait_guard_def wait_body_def)
    moreover from "1.hyps" guard have "waitLoop e ready (wait_body e ready s) = Some y"
      by simp
    ultimately show False
      using "1.IH" never by blast
  qed
qed

lemma waitLoop_never_ready:
  assumes "\<forall>v. \<not> fst (ready v)"
  shows "WiFi_waitWithTimeout e ready w = None"
proof (cases "WiFi_waitWithTimeout e ready w")
  case None
  then show ?thesis .
next
  case (Some y)
  then show ?thesis
    using waitLoop_never_Some [of e ready "(False, 0, baseTimeout, w)" y] assms
    by (simp add: WiFi_waitWithTimeout_def wait_guard_def maxAttempts_def)
qed

lemma Connect_never_linked:
  assumes "\<forall>k. \<not> e_status e k"
  shows "WiFi_Connect e ap w = None"
proof -
  have "\<forall>v. \<not> fst (WiFi_isConnected e v)"
    using assms by (simp add: WiFi_isConnected_def)
  then show ?thesis
    by (simp add: WiFi_Connect_def Let_def waitLoop_never_ready)
qed

text \<open>Running some rounds first does not change what the loop returns.\<close>

lemma waitLoop_rounds: "waitLoop e ready (wait_rounds k e ready s) = waitLoop e ready s"
proof (induction k arbitrary: s)
  case 0
  then show ?case by simp
next
  case (Suc k)
  show ?case
  proof (cases "wait_guard s")
    case True
    then have "waitLoop e ready s = waitLoop e ready (wait_body e ready s)"
      by (subst waitLoop.simps) simp
    with True Suc show ?thesis by simp
  next
    case False
    then show ?thesis by simp
  qed
qed

lemma poll_down: "WiFi_isConnected env_down w = (False, w\<lparr>w_status_calls := w_status_calls w + 1\<rparr>)"
  by (simp add: WiFi_isConnected_def env_down_def)

lemma sleep_down:
  "time_Sleep env_down t w = w\<lparr>w_clock := w_clock w + max 0 (sint t), w_slept := w_slept w @ [t]\<rparr>"
  by (simp add: time_Sleep_def env_down_def)

lemma round_down:
  "wait_guard (False, 0, t, w)"
  "wait_body env_down (WiFi_isConnected env_down) (False, 0, t, w) =
     (False, 0, push_bit 1 t,
      w\<lparr>w_clock := w_clock w + max 0 (sint t), w_slept := w_slept w @ [t],
        w_status_calls := w_status_calls w + 1\<rparr>)"
  by (simp_all add: wait_guard_def wait_body_def maxAttempts_def poll_down sleep_down)

lemma eight_polls:
  "wait_rounds 8 env_down (WiFi_isConnected env_down) (False, 0, baseTimeout, world_zero) =
     (False, 0, 32000 * Millisecond,
      world_zero\<lparr>w_clock := w_clock world_zero + 31875000000,
        w_slept := [125 * Millisecond, 250 * Millisecond, 500 * Millisecond, 1000 * Millisecond,
          2000 * Millisecond, 4000 * Millisecond, 8000 * Millisecond, 16000 * Millisecond],
        w_status_calls := 8\<rparr>)"
  by (simp add: eval_nat_numeral round_down)
    (simp add: baseTimeout_def Millisecond_def world_zero_def)

text \<open>
  Claim C1 fails on the code. With an access point that never reports a link, the first
  eight rounds of the wait poll eight times and sleep 125, 250, 500, 1000, 2000, 4000, 8000
  and 16000 milliseconds, as the claim says; but \<open>attempt\<close> is still 0 then, the guard of
  the loop still holds with a delay of 32000 milliseconds to come, and neither the wait nor
  \<open>Connect\<close> ever returns: no \<open>ErrConnectToAP\<close> is produced.
\<close>

theorem Connect_never_ready:
  "wait_rounds 8 env_down (WiFi_isConnected env_down) (False, 0, baseTimeout, world_zero) =
     (False, 0, 32000 * Millisecond,
      world_zero\<lparr>w_clock := w_clock world_zero + 31875000000,
        w_slept := [125 * Millisecond, 250 * Millisecond, 500 * Millisecond, 1000 * Millisecond,
          2000 * Millisecond, 4000 * Millisecond, 8000 * Millisecond, 16000 * Millisecond],
        w_status_calls := 8\<rparr>)
   \<and> wait_guard
        (wait_rounds 8 env_down (WiFi_isConnected env_down) (False, 0, baseTimeout, world_zero))
   \<and> WiFi_waitWithTimeout env_down (WiFi_isConnected env_down) world_zero = None
   \<and> WiFi_Connect env_down ap_home world_zero = None"
proof -
  have down: "\<forall>k. \<not> e_status env_down k"
    by (simp add: env_down_def)
  then have "\<forall>v. \<not> fst (WiFi_isConnected env_down v)"
    by (simp add: WiFi_isConnected_def)
  then have "WiFi_waitWithTimeout env_down (WiFi_isConnected env_down) world_zero = None"
    by (rule waitLoop_never_ready)
  moreover have "wait_guard
      (wait_rounds 8 env_down (WiFi_isConnected env_down) (False, 0, baseTimeout, world_zero))"
    by (simp only: eight_polls round_down)
  ultimately show ?thesis
    using Connect_never_linked [OF down, of ap_home world_zero] eight_polls by simp
qed

section \<open>The read loop\<close>

lemma conn_Read_Sleep:
  assumes "conn_Read e d (time_Sleep e (5 * Millisecond) w) = (cnt, err, d1, w1)"
  shows "cnt = p_count (e_read e (w_reads w))"
    and "err = map_option ErrExternal (p_err (e_read e (w_reads w)))"
    and "w_reads w1 = Suc (w_reads w)"
    and "w_slept w1 = w_slept w @ [5 * Millisecond]"
    and "w_clock w + 5000000 \<le> w_clock w1"
    and "length d1 = length d"
  using assms by (auto simp: conn_Read_def time_Sleep_def Let_def Millisecond_def)

lemma read_loop_cases [consumes 1, case_names timeout stop again]:
  assumes "read_loop e start d w = (r, d', w')"
  obtains
    (timeout) "2000000000 < w_clock w - t_ns start" "r = Some ErrReadNoResponse" "d' = d" "w' = w"
  | (stop) cnt err where "w_clock w - t_ns start \<le> 2000000000"
      "conn_Read e d (time_Sleep e (5 * Millisecond) w) = (cnt, err, d', w')"
      "err \<noteq> None \<or> cnt \<noteq> 0"
      "r = (case err of Some er \<Rightarrow> Some er
            | None \<Rightarrow> if cnt \<noteq> datagramSize then Some ErrReadDatagramSize else None)"
  | (again) d1 w1 where "w_clock w - t_ns start \<le> 2000000000"
      "conn_Read e d (time_Sleep e (5 * Millisecond) w) = (0, None, d1, w1)"
      "read_loop e start d1 w1 = (r, d', w')"
proof (cases "w_clock w - t_ns start \<le> 2000000000")
  case False
  with assms have "r = Some ErrReadNoResponse" "d' = d" "w' = w"
    by (simp_all add: read_loop.simps [of e start d w] since_le_timeout)
  with False show ?thesis by (intro timeout) auto
next
  case True
  obtain cnt err d1 w1
    where rd: "conn_Read e d (time_Sleep e (5 * Millisecond) w) = (cnt, err, d1, w1)"
    by (cases "conn_Read e d (time_Sleep e (5 * Millisecond) w)") auto
  show ?thesis
  proof (cases "err = None \<and> cnt = 0")
    case True
    with \<open>w_clock w - t_ns start \<le> 2000000000\<close> rd assms
    have "read_loop e start d1 w1 = (r, d', w')"
      by (simp add: read_loop.simps [of e start d w] since_le_timeout)
    with True rd \<open>w_clock w - t_ns start \<le> 2000000000\<close> show ?thesis
      by (intro again [of d1 w1]) auto
  next
    case False
    with \<open>w_clock w - t_ns start \<le> 2000000000\<close> rd assms
    have "d' = d1" "w' = w1"
      "r = (case err of Some er \<Rightarrow> Some er
            | None \<Rightarrow> if cnt \<noteq> datagramSize then Some ErrReadDatagramSize else None)"
      by (auto simp: read_loop.simps [of e start d w] since_le_timeout split: option.splits if_splits)
    with False rd \<open>w_clock w - t_ns start \<le> 2000000000\<close> show ?thesis
      by (intro stop [of cnt err]) auto
  qed
qed

lemma read_loop_again_induct [consumes 1, case_names timeout stop again]:
  assumes run: "read_loop e start d w = (r, d', w')"
    and t: "\<And>d w. 2000000000 < w_clock w - t_ns start \<Longrightarrow> r = Some ErrReadNoResponse \<Longrightarrow> d' = d \<Longrightarrow> w' = w \<Longrightarrow> P d w"
    and s: "\<And>d w cnt err. w_clock w - t_ns start \<le> 2000000000 \<Longrightarrow>
      conn_Read e d (time_Sleep e (5 * Millisecond) w) = (cnt, err, d', w') \<Longrightarrow>
      err \<noteq> None \<or> cnt \<noteq> 0 \<Longrightarrow>
      r = (case err of Some er \<Rightarrow> Some er
            | None \<Rightarrow> if cnt \<noteq> datagramSize then Some ErrReadDatagramSize else None) \<Longrightarrow> P d w"
    and a: "\<And>d w d1 w1. w_clock w - t_ns start \<le> 2000000000 \<Longrightarrow>
      conn_Read e d (time_Sleep e (5 * Millisecond) w) = (0, None, d1, w1) \<Longrightarrow>
      read_loop e start d1 w1 = (r, d', w') \<Longrightarrow> P d1 w1 \<Longrightarrow> P d w"
  shows "P d w"
proof -
  have "e0 = e \<Longrightarrow> start0 = start \<Longrightarrow> read_loop e start d w = (r, d', w') \<Longrightarrow> P d w"
    for e0 start0
  proof (induction e0 start0 d w rule: read_loop.induct)
    case (1 e0 start0 d w)
    from "1.prems"(3) show ?case
    proof (cases rule: read_loop_cases)
      case timeout
      then show ?thesis by (rule t)
    next
      case (stop cnt err)
      then show ?thesis by (rule s)
    next
      case (again d1 w1)
      have "P d1 w1"
        using "1.IH" [of 0 "(None, d1, w1)" None "(d1, w1)" d1 w1] again "1.prems"(1,2)
        by (simp add: since_le_timeout)
      with again show ?thesis by (intro a [of w d d1 w1])
    qed
  qed
  with run show ?thesis by simp
qed

lemma read_loop_inv:
  assumes "read_loop e start d w = (r, d', w')"
  shows "w_reads w \<le> w_reads w'
     \<and> w_slept w' = w_slept w @ replicate (w_reads w' - w_reads w) (5 * Millisecond)
     \<and> length d' = length d
     \<and> (\<forall>i. w_reads w \<le> i \<and> Suc i < w_reads w' \<longrightarrow> idle (e_read e i))
     \<and> (w_reads w = w_reads w' \<longrightarrow> r = Some ErrReadNoResponse)
     \<and> (w_reads w < w_reads w' \<longrightarrow>
          r = (case p_err (e_read e (w_reads w' - 1)) of
                 Some m \<Rightarrow> Some (ErrExternal m)
               | None \<Rightarrow>
                   if p_count (e_read e (w_reads w' - 1)) = 0 then Some ErrReadNoResponse
                   else if p_count (e_read e (w_reads w' - 1)) \<noteq> datagramSize
                   then Some ErrReadDatagramSize else None))
     \<and> (r = Some ErrReadNoResponse \<longrightarrow> 2000000000 < w_clock w' - t_ns start)
     \<and> int (w_reads w' - w_reads w) * 5000000 \<le> max 0 (2005000000 - (w_clock w - t_ns start))"
  using assms
proof (induction d w rule: read_loop_again_induct)
  case (timeout d w)
  then show ?case by auto
next
  case (stop d w cnt err)
  note f = conn_Read_Sleep [OF stop(2)]
  from stop(1,3,4) f show ?case
    by (auto simp: idle_def datagramSize_def split: option.splits)
next
  case (again d w d1 w1)
  note f = conn_Read_Sleep [OF again(2)]
  from f(1,2) have idle0: "idle (e_read e (w_reads w))"
    by (simp add: idle_def)
  note inv = again(4)
  note a1 = inv [THEN conjunct1]
  note a2 = inv [THEN conjunct2, THEN conjunct1]
  note a3 = inv [THEN conjunct2, THEN conjunct2, THEN conjunct1]
  note a4 = inv [THEN conjunct2, THEN conjunct2, THEN conjunct2, THEN conjunct1]
  note a5 = inv [THEN conjunct2, THEN conjunct2, THEN conjunct2, THEN conjunct2, THEN conjunct1]
  note a6 = inv [THEN conjunct2, THEN conjunct2, THEN conjunct2, THEN conjunct2, THEN conjunct2,
    THEN conjunct1]
  note a7 = inv [THEN conjunct2, THEN conjunct2, THEN conjunct2, THEN conjunct2, THEN conjunct2,
    THEN conjunct2, THEN conjunct1]
  note a8 = inv [THEN conjunct2, THEN conjunct2, THEN conjunct2, THEN conjunct2, THEN conjunct2,
    THEN conjunct2, THEN conjunct2]
  have k: "w_reads w' - w_reads w = Suc (w_reads w' - w_reads w1)"
    using a1 f(3) by simp
  have g1: "w_reads w \<le> w_reads w'"
    using a1 f(3) by simp
  have g2: "w_slept w' = w_slept w @ replicate (w_reads w' - w_reads w) (5 * Millisecond)"
    using a2 f(4) k by simp
  have g3: "length d' = length d"
    using a3 f(6) by simp
  have g4: "\<forall>i. w_reads w \<le> i \<and> Suc i < w_reads w' \<longrightarrow> idle (e_read e i)"
  proof (intro allI impI)
    fix i assume i: "w_reads w \<le> i \<and> Suc i < w_reads w'"
    show "idle (e_read e i)"
    proof (cases "i = w_reads w")
      case True
      with idle0 show ?thesis by simp
    next
      case False
      with i f(3) have "w_reads w1 \<le> i \<and> Suc i < w_reads w'" by simp
      with a4 show ?thesis by blast
    qed
  qed
  have g5: "w_reads w = w_reads w' \<longrightarrow> r = Some ErrReadNoResponse"
    using a1 f(3) by simp
  have g6: "w_reads w < w_reads w' \<longrightarrow>
          r = (case p_err (e_read e (w_reads w' - 1)) of
                 Some m \<Rightarrow> Some (ErrExternal m)
               | None \<Rightarrow>
                   if p_count (e_read e (w_reads w' - 1)) = 0 then Some ErrReadNoResponse
                   else if p_count (e_read e (w_reads w' - 1)) \<noteq> datagramSize
                   then Some ErrReadDatagramSize else None)"
  proof (cases "w_reads w1 < w_reads w'")
    case True
    with a6 show ?thesis by simp
  next
    case False
    with a1 have e: "w_reads w1 = w_reads w'" by simp
    with a5 have "r = Some ErrReadNoResponse" by simp
    moreover from e f(3) have "w_reads w' - 1 = w_reads w" by simp
    ultimately show ?thesis using idle0 by (simp add: idle_def)
  qed
  have g8: "int (w_reads w' - w_reads w) * 5000000
              \<le> max 0 (2005000000 - (w_clock w - t_ns start))"
    using a8 f(5) again(1) unfolding k by simp
  from g1 g2 g3 g4 g5 g6 a7 g8 show ?case by blast
qed

text \<open>
  Claim C7. \<open>read\<close> always returns, after at least one and at most 401 polls, each
  preceded by a sleep of 5 milliseconds (a round starts only while no more than 2 seconds
  have passed). Every poll but the last found no packet. What the last poll reported decides
  the result: an error of the socket is returned as it is; no byte gives
  \<open>ErrReadNoResponse\<close>, and then more than 2 seconds have passed; a count other than 0
  and 48 gives \<open>ErrReadDatagramSize\<close>; a count of 48 gives success, and nothing else does.
\<close>

theorem NTP_read_outcomes:
  assumes "NTP_read e n w = (r, n', w')"
  shows "w_reads w < w_reads w' \<and> w_reads w' - w_reads w \<le> 401
     \<and> w_slept w' = w_slept w @ replicate (w_reads w' - w_reads w) (5 * Millisecond)
     \<and> (\<forall>i. w_reads w \<le> i \<and> Suc i < w_reads w' \<longrightarrow> idle (e_read e i))
     \<and> (r = Some ErrReadNoResponse \<longleftrightarrow> idle (e_read e (w_reads w' - 1)))
     \<and> (r = Some ErrReadNoResponse \<longrightarrow> 2000000000 < w_clock w' - w_clock w)
     \<and> (r = Some ErrReadDatagramSize \<longleftrightarrow>
           p_err (e_read e (w_reads w' - 1)) = None
           \<and> p_count (e_read e (w_reads w' - 1)) \<noteq> 0
           \<and> p_count (e_read e (w_reads w' - 1)) \<noteq> 48)
     \<and> (\<forall>m. r = Some (ErrExternal m) \<longleftrightarrow> p_err (e_read e (w_reads w' - 1)) = Some m)
     \<and> (r = None \<longleftrightarrow>
           p_err (e_read e (w_reads w' - 1)) = None \<and> p_count (e_read e (w_reads w' - 1)) = 48)
     \<and> length (n_datagram n') = length (n_datagram n)"
proof -
  obtain d' where run: "read_loop e (time_Now w) (datagram_reset (n_datagram n)) w = (r, d', w')"
    and n': "n' = n\<lparr>n_datagram := d'\<rparr>"
    using assms by (auto simp: NTP_read_def split: prod.splits)
  note inv = read_loop_inv [OF run]
  have start: "t_ns (time_Now w) = w_clock w" by (simp add: time_Now_def)
  have pos: "w_reads w < w_reads w'"
    using run
  proof (cases rule: read_loop_cases)
    case timeout
    then show ?thesis by (simp add: start)
  next
    case (stop cnt err)
    then show ?thesis using conn_Read_Sleep(3) [OF stop(2)] by simp
  next
    case (again d1 w1)
    then show ?thesis
      using conn_Read_Sleep(3) [OF again(2)] read_loop_inv [OF again(3), THEN conjunct1] by simp
  qed
  from inv have bound: "w_reads w' - w_reads w \<le> 401"
    by (simp add: start)
  from inv pos have out: "r = (case p_err (e_read e (w_reads w' - 1)) of
                 Some m \<Rightarrow> Some (ErrExternal m)
               | None \<Rightarrow>
                   if p_count (e_read e (w_reads w' - 1)) = 0 then Some ErrReadNoResponse
                   else if p_count (e_read e (w_reads w' - 1)) \<noteq> datagramSize
                   then Some ErrReadDatagramSize else None)"
    by blast
  have o1: "r = Some ErrReadNoResponse \<longleftrightarrow> idle (e_read e (w_reads w' - 1))"
    by (subst out) (simp add: idle_def split: option.split)
  have o2: "r = Some ErrReadDatagramSize \<longleftrightarrow>
           p_err (e_read e (w_reads w' - 1)) = None
           \<and> p_count (e_read e (w_reads w' - 1)) \<noteq> 0
           \<and> p_count (e_read e (w_reads w' - 1)) \<noteq> 48"
    by (subst out) (simp add: datagramSize_def split: option.split)
  have o3: "\<forall>m. r = Some (ErrExternal m) \<longleftrightarrow> p_err (e_read e (w_reads w' - 1)) = Some m"
    by (subst out) (simp add: split: option.split)
  have o4: "r = None \<longleftrightarrow>
           p_err (e_read e (w_reads w' - 1)) = None \<and> p_count (e_read e (w_reads w' - 1)) = 48"
    by (subst out) (simp add: datagramSize_def split: option.split)
  have len: "length (n_datagram n') = length (n_datagram n)"
    using inv n' by (simp add: datagram_reset_def)
  have late: "r = Some ErrReadNoResponse \<longrightarrow> 2000000000 < w_clock w' - w_clock w"
    using inv by (simp add: start)
  from inv have sl: "w_slept w' = w_slept w @ replicate (w_reads w' - w_reads w) (5 * Millisecond)"
    and idl: "\<forall>i. w_reads w \<le> i \<and> Suc i < w_reads w' \<longrightarrow> idle (e_read e i)"
    by blast+
  from pos bound sl idl o1 late o2 o3 o4 len show ?thesis by blast
qed

theorem NTP_read_outcomes_witness:
  "fst (NTP_read env_up (NTP_New Config_zero) world_zero) = None
   \<and> p_count (e_read env_up
         (w_reads (snd (snd (NTP_read env_up (NTP_New Config_zero) world_zero))) - 1)) = 48
   \<and> fst (NTP_read env_down (NTP_New Config_zero) world_zero) = Some ErrReadNoResponse
   \<and> idle (e_read env_down
         (w_reads (snd (snd (NTP_read env_down (NTP_New Config_zero) world_zero))) - 1))
   \<and> w_reads (snd (snd (NTP_read env_down (NTP_New Config_zero) world_zero)))
         - w_reads world_zero \<le> 401"
proof -
  have up: "NTP_read env_up (NTP_New Config_zero) world_zero =
      (fst (NTP_read env_up (NTP_New Config_zero) world_zero),
       fst (snd (NTP_read env_up (NTP_New Config_zero) world_zero)),
       snd (snd (NTP_read env_up (NTP_New Config_zero) world_zero)))"
    by simp
  have down: "NTP_read env_down (NTP_New Config_zero) world_zero =
      (fst (NTP_read env_down (NTP_New Config_zero) world_zero),
       fst (snd (NTP_read env_down (NTP_New Config_zero) world_zero)),
       snd (snd (NTP_read env_down (NTP_New Config_zero) world_zero)))"
    by simp
  have pu: "\<And>i. p_err (e_read env_up i) = None \<and> p_count (e_read env_up i) = 48"
    by (simp add: env_up_def)
  have pd: "\<And>i. idle (e_read env_down i)"
    by (simp add: env_down_def idle_def)
  show ?thesis
    using NTP_read_outcomes [OF up] NTP_read_outcomes [OF down] pu pd by simp
qed

section \<open>Sync\<close>

lemma read_loop_frame:
  assumes "read_loop e start d w = (r, d', w')"
  shows "w_shared w' = w_shared w \<and> w_displayed w' = w_displayed w"
  using assms
proof (induction d w rule: read_loop_again_induct)
  case (timeout d w)
  then show ?case by simp
next
  case (stop d w cnt err)
  then show ?case by (auto simp: conn_Read_def time_Sleep_def Let_def)
next
  case (again d w d1 w1)
  then show ?case by (auto simp: conn_Read_def time_Sleep_def Let_def)
qed

lemma NTP_read_frame:
  assumes "NTP_read e n w = (r, n', w')"
  shows "w_shared w' = w_shared w \<and> w_displayed w' = w_displayed w
     \<and> n_lastSync n' = n_lastSync n \<and> n_lastPost n' = n_lastPost n"
  using assms read_loop_frame
  by (fastforce simp: NTP_read_def split: prod.splits)

lemma NTP_write_frame:
  assumes "NTP_write e n w = (r, n', w')"
  shows "w_shared w' = w_shared w \<and> w_displayed w' = w_displayed w
     \<and> n_lastSync n' = n_lastSync n \<and> n_lastPost n' = n_lastPost n"
  using assms
  by (auto simp: NTP_write_def conn_Write_def split: sum.splits prod.splits)

lemma NTP_request_frame:
  assumes "NTP_request e n w = (r, n', w')"
  shows "w_shared w' = w_shared w \<and> w_displayed w' = w_displayed w
     \<and> n_lastSync n' = n_lastSync n \<and> n_lastPost n' = n_lastPost n"
proof -
  obtain r1 n1 w1 where wr: "NTP_write e n w = (r1, n1, w1)"
    by (cases "NTP_write e n w") auto
  note f1 = NTP_write_frame [OF wr]
  show ?thesis
  proof (cases r1)
    case (Some err)
    with assms wr f1 show ?thesis by (simp add: NTP_request_def)
  next
    case None
    obtain r2 n2 w2 where rd: "NTP_read e n1 w1 = (r2, n2, w2)"
      by (cases "NTP_read e n1 w1") auto
    note f2 = NTP_read_frame [OF rd]
    from assms wr None rd f1 f2 show ?thesis
      by (auto simp: NTP_request_def split: option.splits)
  qed
qed

lemma GetHostByName_frame:
  assumes "WiFi_GetHostByName e name w = (r, w')"
  shows "w_shared w' = w_shared w \<and> w_displayed w' = w_displayed w"
  using assms
  by (auto simp: WiFi_GetHostByName_def WiFi_isConnected_def WiFi_hasIP_def
      split: prod.splits if_splits sum.splits)

lemma Sync_fetch_frame:
  assumes "NTP_Sync_fetch e n w = (r, n', w')"
  shows "s_data (w_shared w') = s_data (w_shared w) \<and> \<not> s_changed (w_shared w')
     \<and> w_displayed w' = w_displayed w \<and> n_lastPost n' = n_lastPost n
     \<and> (r \<noteq> None \<longrightarrow> n_lastSync n' = n_lastSync n)"
proof -
  define w0 where "w0 = w\<lparr>w_shared := (w_shared w)\<lparr>s_changed := False\<rparr>\<rparr>"
  define host where "host = Server (n_config n) !
      unat (m_Retry (s_data (w_shared w)) mod word_of_nat (length (Server (n_config n))))"
  have w0: "s_data (w_shared w0) = s_data (w_shared w)" "\<not> s_changed (w_shared w0)"
    "w_displayed w0 = w_displayed w"
    by (simp_all add: w0_def)
  show ?thesis
  proof (cases "(word_of_nat (length (Server (n_config n))) :: 32 word) = 0")
    case True
    with assms w0 show ?thesis
      by (auto simp: NTP_Sync_fetch_def model_Get_def Let_def w0_def)
  next
    case False
    obtain r1 w1 where gh: "WiFi_GetHostByName e host w0 = (r1, w1)"
      by (cases "WiFi_GetHostByName e host w0") auto
    note f1 = GetHostByName_frame [OF gh]
    show ?thesis
    proof (cases r1)
      case (Inl err)
      with assms False gh f1 w0 show ?thesis
        by (auto simp: NTP_Sync_fetch_def model_Get_def Let_def w0_def host_def)
    next
      case (Inr addr)
      obtain r2 w2 where dl: "net_DialUDP e w1 = (r2, w2)"
        by (cases "net_DialUDP e w1") auto
      then have f2: "w_shared w2 = w_shared w1" "w_displayed w2 = w_displayed w1"
        by (auto simp: net_DialUDP_def)
      show ?thesis
      proof (cases r2)
        case (Some err)
        with assms False gh Inr dl f1 f2 w0 show ?thesis
          by (auto simp: NTP_Sync_fetch_def model_Get_def Let_def w0_def host_def)
      next
        case None
        obtain r3 n3 w3 where rq: "NTP_request e n w2 = (r3, n3, w3)"
          by (cases "NTP_request e n w2") auto
        note f3 = NTP_request_frame [OF rq]
        from assms False gh Inr dl None rq f1 f2 f3 w0 show ?thesis
          by (auto simp: NTP_Sync_fetch_def model_Get_def Let_def w0_def host_def
              conn_Close_def runtime_AdjustTimeOffset_def split: sum.splits)
      qed
    qed
  qed
qed

lemma expired_1970:
  "NTP_isExpired (NTP_New Config_zero) (time_Now world_zero) = (True, True)"
  by (simp add: NTP_isExpired_def isExpired_def sint_time_Sub NTP_New_def Config_zero_def
      Let_def time_Now_def world_zero_def zeroTime_def DefaultInterval_def DefaultPrecision_def
      Hour_def Second_def)

lemma Now_Run_init: "time_Now (Run_init w) = time_Now w"
  by (simp add: Run_init_def set_Status_def time_Now_def)
lemma fetch_down:
  "NTP_Sync_fetch env_down (NTP_New Config_zero) world_zero =
     (Some ErrNotConnected, NTP_New Config_zero, world_zero\<lparr>w_status_calls := 1\<rparr>)"
  by (simp add: NTP_Sync_fetch_def model_Get_def Let_def NTP_New_def Config_zero_def
      DefaultServer_def WiFi_GetHostByName_def WiFi_isConnected_def env_down_def world_zero_def)

text \<open>
  Where the fetch step fails: at the resolution, at the opening of the socket, at the send
  and at the receive.
\<close>

lemma Sync_fetch_failure_points:
  assumes "(word_of_nat (length (Server (n_config n))) :: 32 word) \<noteq> 0"
    and "model_Get (w_shared w) = ((c, m), sh)"
    and "host = Server (n_config n) ! unat (m_Retry m mod (word_of_nat (length (Server (n_config n))) :: 32 word))"
  shows "WiFi_GetHostByName e host (w\<lparr>w_shared := sh\<rparr>) = (Inl err, w2)
           \<Longrightarrow> NTP_Sync_fetch e n w = (Some err, n, w2)"
    and "WiFi_GetHostByName e host (w\<lparr>w_shared := sh\<rparr>) = (Inr addr, w2)
           \<Longrightarrow> net_DialUDP e w2 = (Some err, w3)
           \<Longrightarrow> NTP_Sync_fetch e n w = (Some err, n, w3)"
    and "WiFi_GetHostByName e host (w\<lparr>w_shared := sh\<rparr>) = (Inr addr, w2)
           \<Longrightarrow> net_DialUDP e w2 = (None, w3)
           \<Longrightarrow> NTP_write e n w3 = (Some err, n4, w4)
           \<Longrightarrow> NTP_Sync_fetch e n w = (Some err, n4, w4)"
    and "WiFi_GetHostByName e host (w\<lparr>w_shared := sh\<rparr>) = (Inr addr, w2)
           \<Longrightarrow> net_DialUDP e w2 = (None, w3)
           \<Longrightarrow> NTP_write e n w3 = (None, n4, w4)
           \<Longrightarrow> NTP_read e n4 w4 = (Some err, n5, w5)
           \<Longrightarrow> NTP_Sync_fetch e n w = (Some err, n5, w5)"
  using assms
  by (simp_all add: NTP_Sync_fetch_def NTP_request_def Let_def)

text \<open>
  Claim C2, as the code has it. When the fetch is due and the fetch step fails (one of its
  \<open>return err\<close> statements is reached, see \<open>Sync_fetch_failure_points\<close>), \<open>Sync\<close>
  returns that error at once and
  the publish step does not run: \<open>lastPost\<close> and \<open>lastSync\<close> keep their values, the
  shared data is not written, and nothing is shown.
\<close>

theorem Sync_failed_fetch_aborts:
  assumes "fst (NTP_isExpired n (time_Now w))"
    and "NTP_Sync_fetch e n w = (Some err, n1, w1)"
  shows "NTP_Sync e n w = (Some err, n1, w1)
     \<and> n_lastPost n1 = n_lastPost n \<and> n_lastSync n1 = n_lastSync n
     \<and> s_data (w_shared w1) = s_data (w_shared w)
     \<and> w_displayed w1 = w_displayed w"
proof -
  obtain b where "NTP_isExpired n (time_Now w) = (True, b)"
    using assms(1) by (cases "NTP_isExpired n (time_Now w)") auto
  then have "NTP_Sync e n w = (Some err, n1, w1)"
    using assms(2) by (simp add: NTP_Sync_def)
  with Sync_fetch_frame [OF assms(2)] show ?thesis by simp
qed

theorem Sync_failed_fetch_aborts_witness:
  "fst (NTP_isExpired (NTP_New Config_zero) (time_Now world_zero))
   \<and> snd (NTP_isExpired (NTP_New Config_zero) (time_Now world_zero))
   \<and> NTP_Sync_fetch env_down (NTP_New Config_zero) world_zero =
       (Some ErrNotConnected, NTP_New Config_zero, world_zero\<lparr>w_status_calls := 1\<rparr>)
   \<and> NTP_Sync env_down (NTP_New Config_zero) world_zero =
       (Some ErrNotConnected, NTP_New Config_zero, world_zero\<lparr>w_status_calls := 1\<rparr>)"
proof -
  have due: "fst (NTP_isExpired (NTP_New Config_zero) (time_Now world_zero))"
    by (simp add: expired_1970)
  show ?thesis
    using Sync_failed_fetch_aborts [OF due fetch_down] fetch_down
    by (simp add: expired_1970)
qed

text \<open>
  The claim as it is written fails: with both steps due and no link, \<open>Sync\<close> returns
  \<open>ErrNotConnected\<close>, \<open>lastPost\<close> and the shared time are still the zero time although the
  clock is not, and the change flag is not set.
\<close>

theorem Sync_failed_fetch_counterexample:
  "NTP_isExpired (NTP_New Config_zero) (time_Now world_zero) = (True, True)
   \<and> fst (NTP_Sync env_down (NTP_New Config_zero) world_zero) = Some ErrNotConnected
   \<and> n_lastPost (fst (snd (NTP_Sync env_down (NTP_New Config_zero) world_zero))) = zeroTime
   \<and> m_Time (s_data (w_shared (snd (snd (NTP_Sync env_down (NTP_New Config_zero) world_zero)))))
       = zeroTime
   \<and> \<not> s_changed (w_shared (snd (snd (NTP_Sync env_down (NTP_New Config_zero) world_zero))))
   \<and> time_Now world_zero \<noteq> zeroTime"
  by (simp add: expired_1970 NTP_Sync_def fetch_down)
    (simp add: NTP_New_def Let_def world_zero_def Model_zero_def time_Now_def zeroTime_def)

text \<open>
  Claim C6, as the code has it. When the fetch is due, \<open>Sync\<close> calls \<open>Get\<close>, which clears
  the change flag, and shows nothing. When \<open>Sync\<close> then does not publish (the fetch fails,
  or the publish is not due), the flag is clear when \<open>Sync\<close> returns, whatever it was
  before, and the next \<open>Get\<close> reports no change although the data is as it was written.
  When the fetch succeeds and the publish is due, the \<open>Set\<close> of the publish step sets the
  flag again, and the next \<open>Get\<close> reports a change.
\<close>

theorem Sync_clears_change_flag:
  assumes "fst (NTP_isExpired n (time_Now w))"
    and "NTP_Sync e n w = (r, n', w')"
  shows "w_displayed w' = w_displayed w
     \<and> (s_changed (w_shared w') \<longleftrightarrow> r = None \<and> snd (NTP_isExpired n (time_Now w)))
     \<and> (r \<noteq> None \<or> \<not> snd (NTP_isExpired n (time_Now w)) \<longrightarrow>
          fst (fst (model_Get (w_shared w'))) = False
          \<and> s_data (w_shared w') = s_data (w_shared w))
     \<and> (r = None \<and> snd (NTP_isExpired n (time_Now w)) \<longrightarrow>
          fst (fst (model_Get (w_shared w'))) = True)"
proof -
  obtain r1 n1 w1 where f: "NTP_Sync_fetch e n w = (r1, n1, w1)"
    by (cases "NTP_Sync_fetch e n w") auto
  note fr = Sync_fetch_frame [OF f]
  show ?thesis
  proof (cases r1)
    case (Some err)
    with assms f fr show ?thesis
      by (auto simp: NTP_Sync_def model_Get_def split: prod.splits)
  next
    case None
    with assms f fr show ?thesis
      by (auto simp: NTP_Sync_def NTP_Sync_post_def model_Get_def model_Set_def Let_def
          split: prod.splits if_splits)
  qed
qed

theorem Sync_clears_change_flag_witness:
  "s_changed (w_shared (Run_init world_zero))
   \<and> fst (NTP_isExpired (NTP_New Config_zero) (time_Now (Run_init world_zero)))
   \<and> fst (NTP_Sync env_down (NTP_New Config_zero) (Run_init world_zero)) = Some ErrNotConnected
   \<and> fst (fst (model_Get (w_shared (snd (snd
        (NTP_Sync env_down (NTP_New Config_zero) (Run_init world_zero))))))) = False"
proof -
  have due: "fst (NTP_isExpired (NTP_New Config_zero) (time_Now (Run_init world_zero)))"
    by (simp add: expired_1970 Now_Run_init)
  have run: "NTP_Sync env_down (NTP_New Config_zero) (Run_init world_zero) =
      (fst (NTP_Sync env_down (NTP_New Config_zero) (Run_init world_zero)),
       fst (snd (NTP_Sync env_down (NTP_New Config_zero) (Run_init world_zero))),
       snd (snd (NTP_Sync env_down (NTP_New Config_zero) (Run_init world_zero))))"
    by simp
  have "fst (NTP_Sync_fetch env_down (NTP_New Config_zero) (Run_init world_zero))
      = Some ErrNotConnected"
    by (simp add: NTP_Sync_fetch_def model_Get_def Let_def NTP_New_def Config_zero_def
        DefaultServer_def WiFi_GetHostByName_def WiFi_isConnected_def env_down_def)
  then have err: "fst (NTP_Sync env_down (NTP_New Config_zero) (Run_init world_zero))
      = Some ErrNotConnected"
    by (auto simp: NTP_Sync_def expired_1970 Now_Run_init split: prod.splits)
  have set: "s_changed (w_shared (Run_init world_zero))"
    by (simp add: Run_init_def set_Status_def model_Set_def)
  show ?thesis
    using Sync_clears_change_flag [OF due run] err set due by simp
qed

text \<open>
  The claim as it is written fails: with a change written before the call, the fetch due
  and successful and the publish due, the next \<open>Get\<close> after \<open>Sync\<close> reports a change.
\<close>

lemma read_loop_up:
  assumes "t_ns start = w_clock w"
  shows "fst (read_loop env_up start d w) = None
     \<and> length (fst (snd (read_loop env_up start d w))) = length d"
  using assms
  by (subst read_loop.simps, subst (2) read_loop.simps)
    (simp add: since_le_timeout conn_Read_def Let_def env_up_def datagramSize_def)

lemma NTP_read_up:
  "fst (NTP_read env_up n w) = None
   \<and> length (n_datagram (fst (snd (NTP_read env_up n w)))) = length (n_datagram n)"
  using read_loop_up [of "time_Now w" w "datagram_reset (n_datagram n)"]
  by (auto simp: NTP_read_def time_Now_def datagram_reset_def split: prod.splits)

lemma NTP_write_up:
  assumes "length (n_datagram n) = 48"
  shows "fst (NTP_write env_up n w) = None
     \<and> length (n_datagram (fst (snd (NTP_write env_up n w)))) = 48"
  using assms
  by (simp add: NTP_write_def write_datagram_48 conn_Write_def env_up_def)

lemma NTP_request_up:
  assumes "length (n_datagram n) = 48"
  shows "\<exists>cur. fst (NTP_request env_up n w) = Inr cur"
proof -
  obtain n1 w1 where wr: "NTP_write env_up n w = (None, n1, w1)" and l1: "length (n_datagram n1) = 48"
    using NTP_write_up [OF assms, of w] by (cases "NTP_write env_up n w") auto
  obtain n2 w2 where rd: "NTP_read env_up n1 w1 = (None, n2, w2)"
    and l2: "length (n_datagram n2) = 48"
    using NTP_read_up [of n1 w1] l1 by (cases "NTP_read env_up n1 w1") auto
  show ?thesis
    using wr rd l2 by (simp add: NTP_request_def datagram_parse_def)
qed

lemma fetch_up: "fst (NTP_Sync_fetch env_up (NTP_New Config_zero) w) = None"
proof -
  have l: "length (n_datagram (NTP_New Config_zero)) = 48"
    by (simp add: NTP_New_def Let_def datagramSize_def)
  have s: "Server (n_config (NTP_New Config_zero)) = DefaultServer"
    by (simp add: NTP_New_def Let_def Config_zero_def)
  obtain c m sh where gt: "model_Get (w_shared w) = ((c, m), sh)"
    by (cases "model_Get (w_shared w)") auto
  define host where "host = DefaultServer !
      unat (m_Retry m mod (word_of_nat (length DefaultServer) :: 32 word))"
  obtain w2 where g: "WiFi_GetHostByName env_up host (w\<lparr>w_shared := sh\<rparr>) = (Inr ''216.239.35.0'', w2)"
    by (simp add: WiFi_GetHostByName_def WiFi_isConnected_def WiFi_hasIP_def env_up_def)
  obtain w3 where d: "net_DialUDP env_up w2 = (None, w3)"
    by (simp add: net_DialUDP_def env_up_def)
  obtain cur n4 w4 where rq: "NTP_request env_up (NTP_New Config_zero) w3 = (Inr cur, n4, w4)"
    using NTP_request_up [OF l, of w3]
    by (cases "NTP_request env_up (NTP_New Config_zero) w3") auto
  have len: "(word_of_nat (length DefaultServer) :: 32 word) \<noteq> 0"
    by (simp add: DefaultServer_def)
  show ?thesis
    using len
    by (simp add: NTP_Sync_fetch_def s gt Let_def g [unfolded host_def] d rq)
qed

theorem Sync_publish_counterexample:
  "s_changed (w_shared (Run_init world_zero))
   \<and> fst (NTP_isExpired (NTP_New Config_zero) (time_Now (Run_init world_zero)))
   \<and> fst (NTP_Sync env_up (NTP_New Config_zero) (Run_init world_zero)) = None
   \<and> fst (fst (model_Get (w_shared (snd (snd
        (NTP_Sync env_up (NTP_New Config_zero) (Run_init world_zero))))))) = True"
proof -
  obtain n1 w1 where f: "NTP_Sync_fetch env_up (NTP_New Config_zero) (Run_init world_zero)
      = (None, n1, w1)"
    using fetch_up [of "Run_init world_zero"]
    by (cases "NTP_Sync_fetch env_up (NTP_New Config_zero) (Run_init world_zero)") auto
  have set: "s_changed (w_shared (Run_init world_zero))"
    by (simp add: Run_init_def set_Status_def model_Set_def)
  show ?thesis
    using set
    by (simp add: NTP_Sync_def expired_1970 Now_Run_init f NTP_Sync_post_def Let_def
        model_Set_def model_Get_def)
qed

section \<open>The state Connecting\<close>

lemma waitLoop_ready_now:
  assumes "fst (ready w)"
  shows "WiFi_waitWithTimeout e ready w = Some (True, snd (ready w))"
proof -
  obtain w' where r: "ready w = (True, w')"
    using assms by (cases "ready w") auto
  then have b: "wait_body e ready (False, 0, baseTimeout, w) = (True, 0, baseTimeout, snd (ready w))"
    by (simp add: wait_body_def)
  have "waitLoop e ready (True, 0, baseTimeout, snd (ready w)) = Some (True, snd (ready w))"
    by (subst waitLoop.simps) (simp add: wait_guard_def)
  then show ?thesis
    unfolding WiFi_waitWithTimeout_def
    by (subst waitLoop.simps) (simp add: wait_guard_def maxAttempts_def b)
qed

lemma Connect_up:
  "WiFi_Connect env_up ap w =
     Some (None,
       (nina_SetPassphrase ap (time_Sleep env_up (2 * Second) w))
         \<lparr>w_shared := model_Set (\<lambda>m. m\<lparr>m_AP := ap, m_IP := ''10.0.0.2''\<rparr>) (w_shared w),
           w_ip := ''10.0.0.2'',
           w_status_calls := w_status_calls w + 1,
           w_ip_calls := w_ip_calls w + 1\<rparr>)"
proof -
  have a: "fst (WiFi_isConnected env_up v)" for v
    by (simp add: WiFi_isConnected_def env_up_def)
  have b: "fst (WiFi_hasIP env_up v)" for v
    by (simp add: WiFi_hasIP_def env_up_def)
  show ?thesis
    by (simp add: WiFi_Connect_def Let_def waitLoop_ready_now [OF a] waitLoop_ready_now [OF b])
      (simp add: WiFi_isConnected_def WiFi_hasIP_def env_up_def nina_SetPassphrase_def
        time_Sleep_def)
qed

lemma waitLoop_passphrases:
  "waitLoop e ready s = Some y \<Longrightarrow>
     (\<forall>v. w_passphrases (snd (ready v)) = w_passphrases v) \<longrightarrow>
       w_passphrases (snd y) = w_passphrases (snd (snd (snd s)))"
proof (induction e ready s y rule: waitLoop.raw_induct [rotated 1, consumes 1])
  case (1 waitLoop e ready s y)
  show ?case
  proof (intro impI)
    assume keep: "\<forall>v. w_passphrases (snd (ready v)) = w_passphrases v"
    obtain ok attempt timeout w where s: "s = (ok, attempt, timeout, w)"
      by (cases s) auto
    show "w_passphrases (snd y) = w_passphrases (snd (snd (snd s)))"
    proof (cases "wait_guard s")
      case False
      with "1.hyps" s show ?thesis by auto
    next
      case True
      with "1.hyps" have "waitLoop e ready (wait_body e ready s) = Some y"
        by simp
      from "1.IH" [OF this] keep
      have "w_passphrases (snd y) = w_passphrases (snd (snd (snd (wait_body e ready s))))"
        by blast
      also have "\<dots> = w_passphrases (snd (ready w))"
        by (simp add: s wait_body_def time_Sleep_def split: prod.splits)
      also have "\<dots> = w_passphrases w"
        using keep by simp
      finally show ?thesis by (simp add: s)
    qed
  qed
qed

lemma Connect_passphrases:
  assumes "WiFi_Connect e ap w = Some (r, w1)"
  shows "w_passphrases w1 = w_passphrases w @ [ap]"
proof -
  define w2 where "w2 = nina_SetPassphrase ap (time_Sleep e (2 * Second) w)"
  have p2: "w_passphrases w2 = w_passphrases w @ [ap]"
    by (simp add: w2_def nina_SetPassphrase_def time_Sleep_def)
  have k1: "\<forall>v. w_passphrases (snd (WiFi_isConnected e v)) = w_passphrases v"
    by (simp add: WiFi_isConnected_def)
  have k2: "\<forall>v. w_passphrases (snd (WiFi_hasIP e v)) = w_passphrases v"
    by (simp add: WiFi_hasIP_def split: prod.splits)
  from assms obtain ok w3 where a: "WiFi_waitWithTimeout e (WiFi_isConnected e) w2 = Some (ok, w3)"
    by (auto simp: WiFi_Connect_def Let_def w2_def split: option.splits)
  then have p3: "w_passphrases w3 = w_passphrases w2"
    using waitLoop_passphrases [of e "WiFi_isConnected e" "(False, 0, baseTimeout, w2)" "(ok, w3)"]
      k1
    by (simp add: WiFi_waitWithTimeout_def)
  show ?thesis
  proof (cases ok)
    case False
    with assms a p2 p3 show ?thesis
      by (simp add: WiFi_Connect_def Let_def w2_def)
  next
    case True
    with assms a obtain ok' w4 where b: "WiFi_waitWithTimeout e (WiFi_hasIP e) w3 = Some (ok', w4)"
      by (auto simp: WiFi_Connect_def Let_def w2_def split: option.splits)
    then have p4: "w_passphrases w4 = w_passphrases w3"
      using waitLoop_passphrases [of e "WiFi_hasIP e" "(False, 0, baseTimeout, w3)" "(ok', w4)"] k2
      by (simp add: WiFi_waitWithTimeout_def)
    from assms a b True p2 p3 p4 show ?thesis
      by (auto simp: WiFi_Connect_def Let_def w2_def split: if_splits)
  qed
qed

lemma Run_connect_every_candidate:
  "Run_connect e aps w = Some w' \<Longrightarrow> w_passphrases w' = w_passphrases w @ aps"
proof (induction aps arbitrary: w)
  case Nil
  then show ?case by simp
next
  case (Cons ap aps)
  from Cons.prems obtain r w1 where c: "WiFi_Connect e ap w = Some (r, w1)"
    by (auto split: option.splits)
  note p = Connect_passphrases [OF c]
  show ?case
  proof (cases r)
    case None
    with Cons.prems c have "Run_connect e aps (set_Status StatusUnsynchronized w1) = Some w'"
      by simp
    from Cons.IH [OF this] p show ?thesis by (simp add: set_Status_def)
  next
    case (Some err)
    with Cons.prems c
    have "Run_connect e aps (println (SSID ap @ '': '' @ Error err) w1) = Some w'"
      by simp
    from Cons.IH [OF this] p show ?thesis by (simp add: println_def)
  qed
qed

text \<open>
  Claim C3 fails on the code. The loop over the access points has no \<open>break\<close>: with two
  candidates that both accept the connection, a round in state \<open>StatusConnecting\<close> with
  the change flag set hands the passphrase of the first and then of the second to the device,
  and the shared state ends with the second as access point, in \<open>StatusUnsynchronized\<close>. The
  lemma \<open>Run_connect_every_candidate\<close> above says the same of every list: whenever the
  loop ends, every candidate has been tried, in order, whatever the earlier results.
\<close>

theorem Run_connecting_no_break:
  "map_option (map_sum id (\<lambda>(n, w). (w_passphrases w, m_AP (s_data (w_shared w)),
       m_Status (s_data (w_shared w)))))
     (Run_tick env_up [ap_home, ap_work] (NTP_New Config_zero) world_connecting)
   = Some (Inr ([ap_home, ap_work], ap_work, StatusUnsynchronized))"
  by (simp add: Run_tick_def world_connecting_def set_Status_def model_Set_def model_Get_def
      world_zero_def Model_zero_def Let_def display_Update_def Connect_up
      nina_SetPassphrase_def time_Sleep_def)

end
